theory Spec2Isabelle
  imports Complex_Main
begin

section \<open>Python strings used by the column naming contract\<close>

text \<open>\<^verbatim>\<open>str(item).split("(")[0]\<close>: the text before the first opening parenthesis.\<close>

definition split_paren :: "string \<Rightarrow> string" where
  "split_paren s = takeWhile (\<lambda>c. c \<noteq> CHR ''('') s"

text \<open>\<^verbatim>\<open>sub in s\<close> on strings.\<close>

fun starts_with :: "string \<Rightarrow> string \<Rightarrow> bool" where
  "starts_with [] s = True"
| "starts_with (c # cs) [] = False"
| "starts_with (c # cs) (d # ds) = (c = d \<and> starts_with cs ds)"

fun contains :: "string \<Rightarrow> string \<Rightarrow> bool" where
  "contains sub [] = (sub = [])"
| "contains sub (c # cs) = (starts_with sub (c # cs) \<or> contains sub cs)"

text \<open>\<^verbatim>\<open>str(counter)\<close> for the non-negative counters of the naming loops.\<close>

definition digit_char :: "nat \<Rightarrow> char" where
  "digit_char d = ''0123456789'' ! d"

fun str_nat :: "nat \<Rightarrow> string" where
  "str_nat n = (if n < 10 then [digit_char n] else str_nat (n div 10) @ [digit_char (n mod 10)])"

declare str_nat.simps [simp del]


text \<open>\<^verbatim>\<open>str(l)\<close> of a list of objects: the items' texts, comma separated, in brackets.\<close>

fun join_comma :: "string list \<Rightarrow> string" where
  "join_comma [] = []"
| "join_comma [s] = s"
| "join_comma (s # t # ss) = s @ '', '' @ join_comma (t # ss)"

definition py_str_list :: "string list \<Rightarrow> string" where
  "py_str_list ss = ''['' @ join_comma ss @ '']''"

section \<open>Tables, objects and the store\<close>

text \<open>
  A pandas Series is a name with its values; a DataFrame is a row count with its named
  columns, in order. Every frame of the stacking code carries the default positional
  index (\<^verbatim>\<open>reset_index(drop=True)\<close>, or a frame built from an array), so the
  column-wise \<^verbatim>\<open>pd.concat(..., axis=1)\<close> is the concatenation of the column lists.
  Column labels are strings; the label \<^verbatim>\<open>0\<close> that \<^verbatim>\<open>pd.DataFrame(array)\<close> gives its
  only column is written \<open>''0''\<close> and is always renamed before it is used.
\<close>

type_synonym series = "string \<times> real list"

record table =
  nrows :: nat
  cols :: "(string \<times> real list) list"

datatype error =
    SysExit string
  | NameError
  | AttributeError
  | TypeError
  | IndexError
  | LengthMismatch
  | EstimatorError
  | InvalidFoldCount
  | TraitError
  | ValueError

definition empty_frame :: table where
  "empty_frame = \<lparr>nrows = 0, cols = []\<rparr>"

definition DataFrame :: "real list \<Rightarrow> table" where
  "DataFrame a = \<lparr>nrows = length a, cols = [(''0'', a)]\<rparr>"

definition DataFrame_series :: "series \<Rightarrow> table" where
  "DataFrame_series s = \<lparr>nrows = length (snd s), cols = [s]\<rparr>"

definition concat_cols :: "table \<Rightarrow> table \<Rightarrow> table" where
  "concat_cols a b = \<lparr>nrows = max (nrows a) (nrows b), cols = cols a @ cols b\<rparr>"

text \<open>\<^verbatim>\<open>df.columns = names\<close>: pandas raises when the number of names is not the number of columns.\<close>

definition set_columns :: "table \<Rightarrow> string list \<Rightarrow> error + table" where
  "set_columns t names =
     (if length names = length (cols t)
      then Inr (t\<lparr>cols := zip names (map snd (cols t))\<rparr>)
      else Inl LengthMismatch)"

text \<open>\<^verbatim>\<open>df.drop(label, axis=1)\<close> removes every column that carries the label.\<close>

definition drop_label :: "string \<Rightarrow> table \<Rightarrow> table" where
  "drop_label l t = t\<lparr>cols := filter (\<lambda>c. fst c \<noteq> l) (cols t)\<rparr>"

text \<open>\<^verbatim>\<open>df.iloc[:, i:]\<close> and \<^verbatim>\<open>df.iloc[idx]\<close>.\<close>

definition iloc_cols_from :: "nat \<Rightarrow> table \<Rightarrow> table" where
  "iloc_cols_from i t = t\<lparr>cols := drop i (cols t)\<rparr>"

definition iloc_rows :: "table \<Rightarrow> nat list \<Rightarrow> table" where
  "iloc_rows t idx = \<lparr>nrows = length idx, cols = map (\<lambda>c. (fst c, map (\<lambda>i. snd c ! i) idx)) (cols t)\<rparr>"

definition iloc_series :: "series \<Rightarrow> nat list \<Rightarrow> error + series" where
  "iloc_series s idx =
     (if list_all (\<lambda>i. i < length (snd s)) idx
      then Inr (fst s, map (\<lambda>i. snd s ! i) idx)
      else Inl IndexError)"

text \<open>
  An object handed to the stacking functions. \<open>type_str\<close> is \<^verbatim>\<open>str(type(obj))\<close> and
  \<open>repr_str\<close> is \<^verbatim>\<open>str(obj)\<close>. A method the object does not have is \<open>None\<close>. The
  estimator library decides whether \<^verbatim>\<open>fit\<close> accepts its arguments and what
  \<^verbatim>\<open>predict\<close> returns (\<open>None\<close>: it raises); a fitted object is determined by the
  data of its last \<^verbatim>\<open>fit\<close>, kept in \<open>trained_on\<close>. A \<^verbatim>\<open>fit\<close> that raises leaves the
  object as it was.
\<close>

record pyobject =
  type_str :: string
  repr_str :: string
  fit_impl :: "(table \<Rightarrow> series \<Rightarrow> bool) option"
  predict_impl :: "((table \<times> series) option \<Rightarrow> table \<Rightarrow> real list option) option"
  transform_impl :: "(table \<Rightarrow> table option) option"
  trained_on :: "(table \<times> series) option"

text \<open>
  Objects are shared by reference: the store holds them, lists and containers hold
  addresses into it. An address handed to a function is below the length of the store.
\<close>

type_synonym store = "pyobject list"

definition fit_obj :: "pyobject \<Rightarrow> table \<Rightarrow> series \<Rightarrow> error + pyobject" where
  "fit_obj obj X y =
     (case fit_impl obj of
        None \<Rightarrow> Inl AttributeError
      | Some accepts \<Rightarrow>
          if accepts X y then Inr (obj\<lparr>trained_on := Some (X, y)\<rparr>) else Inl EstimatorError)"

text \<open>\<^verbatim>\<open>model.fit(X, y)\<close> changes the object in place and returns it.\<close>

definition fit :: "store \<Rightarrow> nat \<Rightarrow> table \<Rightarrow> series \<Rightarrow> store \<times> (error + nat)" where
  "fit st r X y =
     (case fit_obj (st ! r) X y of
        Inl e \<Rightarrow> (st, Inl e)
      | Inr obj \<Rightarrow> (st[r := obj], Inr r))"

definition predict_obj :: "pyobject \<Rightarrow> table \<Rightarrow> error + real list" where
  "predict_obj obj X =
     (case predict_impl obj of
        None \<Rightarrow> Inl AttributeError
      | Some f \<Rightarrow> (case f (trained_on obj) X of None \<Rightarrow> Inl EstimatorError | Some p \<Rightarrow> Inr p))"

definition transform_obj :: "pyobject \<Rightarrow> table \<Rightarrow> error + table" where
  "transform_obj obj X =
     (case transform_impl obj of
        None \<Rightarrow> Inl AttributeError
      | Some f \<Rightarrow> (case f X of None \<Rightarrow> Inl EstimatorError | Some t \<Rightarrow> Inr t))"

text \<open>The unfitted copy that cross-validation works on.\<close>

definition clone :: "pyobject \<Rightarrow> pyobject" where
  "clone obj = obj\<lparr>trained_on := None\<rparr>"

section \<open>Fold splitter and out-of-fold prediction\<close>

text \<open>
  Modelled from the spec: the Fold Splitter (\<^verbatim>\<open>KFold\<close> of the estimator library) is not
  under src/. Spec 4.1: given the row count \<open>N\<close>, the fold count \<open>K\<close> and a seed it
  returns \<open>K\<close> pairs (train positions, test positions) whose test groups cover all \<open>N\<close>
  positions exactly once, and it fails with \<open>InvalidFoldCount\<close> when \<open>K < 2\<close> or
  \<open>K > N\<close>. The source builds it as \<^verbatim>\<open>KFold(fold, random_state=seed)\<close> and never asks
  for shuffling, so the groups are the consecutive blocks of positions in row order,
  the first \<open>N mod K\<close> of them one longer, and the seed does not enter the result.
\<close>

definition fold_start :: "nat \<Rightarrow> nat \<Rightarrow> nat \<Rightarrow> nat" where
  "fold_start N K i = i * (N div K) + min i (N mod K)"

definition KFold_split :: "int \<Rightarrow> int option \<Rightarrow> nat \<Rightarrow> error + (nat list \<times> nat list) list" where
  "KFold_split K random_state N =
     (if K < 2 \<or> int N < K then Inl InvalidFoldCount
      else Inr (map (\<lambda>i. ([0..<fold_start N (nat K) i] @ [fold_start N (nat K) (Suc i)..<N],
                          [fold_start N (nat K) i..<fold_start N (nat K) (Suc i)]))
                    [0..<nat K]))"

text \<open>
  Modelled from the spec: \<^verbatim>\<open>cross_val_predict\<close> of the estimator library is not under
  src/. Spec 4.2, step 2: for each fold of the Fold Splitter a fresh copy of the
  estimator is fitted on the fold's train positions and predicts its test positions;
  the results are put back in row order. The source calls it with \<^verbatim>\<open>cv=fold\<close>, an
  integer and no seed. The estimator itself is left as it is.
\<close>

fun oof_folds :: "pyobject \<Rightarrow> table \<Rightarrow> series \<Rightarrow> (nat list \<times> nat list) list \<Rightarrow> error + real list" where
  "oof_folds obj X y [] = Inr []"
| "oof_folds obj X y (f # rest) =
     (case iloc_series y (fst f) of
        Inl e \<Rightarrow> Inl e
      | Inr ytrain \<Rightarrow>
         (case fit_obj (clone obj) (iloc_rows X (fst f)) ytrain of
            Inl e \<Rightarrow> Inl e
          | Inr fitted \<Rightarrow>
             (case predict_obj fitted (iloc_rows X (snd f)) of
                Inl e \<Rightarrow> Inl e
              | Inr p \<Rightarrow>
                 (case oof_folds obj X y rest of
                    Inl e \<Rightarrow> Inl e
                  | Inr ps \<Rightarrow> Inr (p @ ps)))))"

definition cross_val_predict :: "pyobject \<Rightarrow> table \<Rightarrow> series \<Rightarrow> int \<Rightarrow> error + real list" where
  "cross_val_predict obj X y cv =
     (case KFold_split cv None (nrows X) of
        Inl e \<Rightarrow> Inl e
      | Inr folds \<Rightarrow> oof_folds obj X y folds)"


section \<open>Arguments, containers and the session\<close>

text \<open>
  An argument whose type the functions check: an \<^verbatim>\<open>int\<close>, a \<^verbatim>\<open>bool\<close>, or anything
  else. The parameters \<^verbatim>\<open>fold\<close> and \<^verbatim>\<open>round\<close> are written \<open>n_fold\<close> and \<open>n_round\<close>.
\<close>

datatype pyarg = PInt int | PBool bool | POther

text \<open>
  The Stack Container is a Python list: estimators (addresses), levels (lists of
  addresses) and the restack flag.
\<close>

datatype item = Est nat | Level "nat list" | Flag bool

text \<open>
  The module-level variables that \<^verbatim>\<open>setup()\<close> declares (\<^verbatim>\<open>X, y, X_train, X_test,
  y_train, y_test, seed, prep_pipe\<close>); \<open>prep_pipe\<close> is kept as its \<^verbatim>\<open>transform\<close>
  (\<open>None\<close>: it raises). In a session where \<^verbatim>\<open>setup()\<close> has not run they do not exist.
  \<open>LinearRegression\<close> is the object that the library's constructor of that name
  returns, \<open>np_round\<close> the library's rounding of a cell to a number of decimals
  (\<^verbatim>\<open>DataFrame.round\<close>). The log \<^verbatim>\<open>experiment__\<close>, the monitor and the values of the score
  grid are display and are left out; the construction of the progress bar and the calls of
  the score metrics can raise and are kept (\<open>progress_bar\<close>, \<open>score_metrics\<close>).
\<close>

record globals =
  g_X :: table
  g_y :: series
  g_X_train :: table
  g_y_train :: series
  g_X_test :: table
  g_y_test :: series
  g_seed :: int
  g_prep_pipe :: "table \<Rightarrow> table option"

record env =
  LinearRegression :: pyobject
  np_round :: "int \<Rightarrow> real \<Rightarrow> real"
  session :: "globals option"

section \<open>Column names\<close>

definition fix_name :: "string \<Rightarrow> string" where
  "fix_name i = (if contains ''CatBoostRegressor'' i then ''CatBoostRegressor'' else i)"

text \<open>
  The counter loops: \<^verbatim>\<open>s = str(i) + '_' + str(counter)\<close> (empty tag) and
  \<^verbatim>\<open>s = str(i) + '_' + 'BaseLevel_' + str(counter)\<close>.
\<close>

fun number_names :: "string \<Rightarrow> nat \<Rightarrow> string list \<Rightarrow> string list" where
  "number_names tag counter [] = []"
| "number_names tag counter (i # rest) =
     (i @ ''_'' @ tag @ str_nat counter) # number_names tag (Suc counter) rest"

text \<open>The names of \<^verbatim>\<open>stack_models\<close> and of the single-layer branch of \<^verbatim>\<open>predict_model\<close>.\<close>

definition model_names_fixed :: "string list \<Rightarrow> string list" where
  "model_names_fixed reprs = number_names [] 0 (map fix_name (map split_paren reprs))"

text \<open>
  \<^verbatim>\<open>create_stacknet\<close>, lines 4347 to 4354: the \<^verbatim>\<open>else\<close> stands under the \<^verbatim>\<open>for\<close>, not
  under the \<^verbatim>\<open>if\<close>. The loop appends \<^verbatim>\<open>'CatBoostRegressor'\<close> for each name that
  contains it and nothing for the others; when the loop ends, the \<^verbatim>\<open>else\<close> appends the
  loop variable \<^verbatim>\<open>i\<close> once: the last name, or what \<^verbatim>\<open>i\<close> held before the loop when
  there is no name.
\<close>

fun base_level_fixed_loop :: "string list \<Rightarrow> string \<Rightarrow> string list \<Rightarrow> string list" where
  "base_level_fixed_loop [] i acc = acc @ [i]"
| "base_level_fixed_loop (n # rest) i acc =
     base_level_fixed_loop rest n
       (if contains ''CatBoostRegressor'' n then acc @ [''CatBoostRegressor''] else acc)"

text \<open>
  Before that loop \<^verbatim>\<open>i\<close> is bound by the checking loop \<^verbatim>\<open>for i in estimator_list\<close>,
  to the last level; \<^verbatim>\<open>str(i)\<close> is the text of that list.
\<close>

definition stale_i :: "store \<Rightarrow> nat list list \<Rightarrow> string" where
  "stale_i st estimator_list = py_str_list (map (\<lambda>r. repr_str (st ! r)) (last estimator_list))"

text \<open>\<^verbatim>\<open>base_level_names\<close> after line 4356, and \<^verbatim>\<open>base_level_fixed\<close> after line 4366.\<close>

definition base_level_names_train :: "string list \<Rightarrow> string \<Rightarrow> string list" where
  "base_level_names_train reprs i = base_level_fixed_loop (map split_paren reprs) i []"

definition base_level_fixed_train :: "string list \<Rightarrow> string \<Rightarrow> string list" where
  "base_level_fixed_train reprs i = number_names ''BaseLevel_'' 0 (base_level_names_train reprs i)"

text \<open>\<^verbatim>\<open>predict_model\<close>, lines 5619 to 5644: here the \<^verbatim>\<open>else\<close> belongs to the \<^verbatim>\<open>if\<close>.\<close>

definition base_level_fixed_predict :: "string list \<Rightarrow> string list" where
  "base_level_fixed_predict reprs =
     number_names ''BaseLevel_'' 0 (map fix_name (map split_paren reprs))"

text \<open>The column of an intermediate estimator, the same lines in training and in inference.\<close>

definition inter_col :: "string \<Rightarrow> nat \<Rightarrow> nat \<Rightarrow> string" where
  "inter_col repr inter_counter model_counter =
     fix_name (split_paren repr) @ ''_InterLevel_'' @ str_nat inter_counter @ ''_'' @ str_nat model_counter"

section \<open>stack_models\<close>

text \<open>
  Two calls into libraries that can raise. The progress bar of lines 3856 and 4307 is
  \<^verbatim>\<open>IntProgress(value=0, min=0, max=max_progress)\<close>, which raises a \<^verbatim>\<open>TraitError\<close> when the
  maximum is below the minimum; later additions to its value are clipped and cannot raise.
  The score metrics (\<^verbatim>\<open>mean_absolute_error\<close>, \<^verbatim>\<open>mean_squared_error\<close>, \<^verbatim>\<open>r2_score\<close>,
  \<^verbatim>\<open>max_error\<close>) raise a \<^verbatim>\<open>ValueError\<close> when target and prediction differ in length or
  are empty; what they return only fills the score grid.
\<close>

definition progress_bar :: "int \<Rightarrow> error option" where
  "progress_bar max_progress = (if max_progress < 0 then Some TraitError else None)"

definition score_metrics :: "real list \<Rightarrow> real list \<Rightarrow> error option" where
  "score_metrics ytest pred =
     (if length ytest \<noteq> length pred \<or> pred = [] then Some ValueError else None)"

definition type_ok :: "pyobject \<Rightarrow> bool" where
  "type_ok obj = (contains ''sklearn'' (type_str obj) \<or> contains ''CatBoostRegressor'' (type_str obj))"

definition value_error_msg :: string where
  "value_error_msg = ''(Value Error): estimator_list parameter only trained model object''"

fun is_int :: "pyarg \<Rightarrow> bool" where
  "is_int (PInt k) = True"
| "is_int a = False"

fun is_bool :: "pyarg \<Rightarrow> bool" where
  "is_bool (PBool b) = True"
| "is_bool a = False"

text \<open>
  The checks of the other arguments, shared by both functions (the check of
  \<^verbatim>\<open>plot\<close> in \<^verbatim>\<open>stack_models\<close> tests \<^verbatim>\<open>restack\<close> again and cannot fire). The argument
  \<^verbatim>\<open>plot\<close> only draws and is left out.
\<close>

definition check_params :: "pyarg \<Rightarrow> pyarg \<Rightarrow> pyarg \<Rightarrow> pyarg \<Rightarrow> error option" where
  "check_params n_fold n_round restack verbose =
     (if \<not> is_int n_fold then Some (SysExit ''(Type Error): Fold parameter only accepts integer value.'')
      else if \<not> is_int n_round then Some (SysExit ''(Type Error): Round parameter only accepts integer value.'')
      else if \<not> is_bool restack then Some (SysExit ''(Type Error): Restack parameter can only take argument as True or False.'')
      else if \<not> is_bool verbose then Some (SysExit ''(Type Error): Verbose parameter can only take argument as True or False.'')
      else None)"

definition check_meta :: "store \<Rightarrow> nat option \<Rightarrow> bool" where
  "check_meta st meta_model = (case meta_model of None \<Rightarrow> True | Some m \<Rightarrow> type_ok (st ! m))"

definition stack_models_checks ::
  "store \<Rightarrow> nat list \<Rightarrow> nat option \<Rightarrow> pyarg \<Rightarrow> pyarg \<Rightarrow> pyarg \<Rightarrow> pyarg \<Rightarrow> error option" where
  "stack_models_checks st estimator_list meta_model n_fold n_round restack verbose =
     (if \<not> list_all (\<lambda>i. type_ok (st ! i)) estimator_list then Some (SysExit value_error_msg)
      else if \<not> check_meta st meta_model then Some (SysExit value_error_msg)
      else check_params n_fold n_round restack verbose)"

text \<open>\<^verbatim>\<open>if meta_model == None: meta_model = LinearRegression()\<close>: a new object.\<close>

definition default_meta :: "env \<Rightarrow> store \<Rightarrow> nat option \<Rightarrow> store \<times> nat" where
  "default_meta e st meta_model =
     (case meta_model of None \<Rightarrow> (st @ [LinearRegression e], length st) | Some m \<Rightarrow> (st, m))"

definition training_data :: "env \<Rightarrow> bool \<Rightarrow> error + (table \<times> series \<times> int)" where
  "training_data e finalize =
     (case session e of
        None \<Rightarrow> Inl NameError
      | Some g \<Rightarrow> Inr (if finalize then (g_X g, g_y g, g_seed g) else (g_X_train g, g_y_train g, g_seed g)))"

text \<open>Lines 3939 to 3963: fit each base estimator on all rows, then its out-of-fold column.\<close>

fun base_loop :: "store \<Rightarrow> nat list \<Rightarrow> table \<Rightarrow> series \<Rightarrow> int \<Rightarrow> table \<Rightarrow> store \<times> (error + table)" where
  "base_loop st [] data_X data_y n_fold base_prediction = (st, Inr base_prediction)"
| "base_loop st (model # rest) data_X data_y n_fold base_prediction =
     (case fit st model data_X data_y of
        (st1, Inl e) \<Rightarrow> (st1, Inl e)
      | (st1, Inr r) \<Rightarrow>
         (case cross_val_predict (st1 ! model) data_X data_y n_fold of
            Inl e \<Rightarrow> (st1, Inl e)
          | Inr base_array \<Rightarrow>
              base_loop st1 rest data_X data_y n_fold (concat_cols base_prediction (DataFrame base_array))))"

text \<open>
  Lines 3965 to 3985: name the columns, drop the target, restack or not. The correlation
  table of line 3984 reads \<^verbatim>\<open>base_prediction.columns[0]\<close>, which raises when no column is left.
\<close>

definition assemble_meta_table :: "table \<Rightarrow> series \<Rightarrow> string list \<Rightarrow> bool \<Rightarrow> table \<Rightarrow> error + table" where
  "assemble_meta_table data_X data_y names restack base_prediction =
     (case set_columns base_prediction (fst data_y # names) of
        Inl e \<Rightarrow> Inl e
      | Inr named \<Rightarrow>
         (let bp = drop_label (fst data_y) named;
              meta_X = (if restack then concat_cols data_X bp else bp)
          in if cols bp = [] then Inl IndexError else Inr meta_X))"

text \<open>
  Lines 4012 to 4109, the scoring loop: \<^verbatim>\<open>model\<close> is the meta estimator itself, and
  \<^verbatim>\<open>model.fit(Xtrain, ytrain)\<close> fits that object again on each fold's train rows; its
  prediction of the fold's test rows is scored against \<^verbatim>\<open>ytest\<close> (lines 4034 to 4038).
\<close>

fun meta_cv_loop :: "store \<Rightarrow> nat \<Rightarrow> table \<Rightarrow> series \<Rightarrow> (nat list \<times> nat list) list \<Rightarrow> store \<times> (error + unit)" where
  "meta_cv_loop st model data_X data_y [] = (st, Inr ())"
| "meta_cv_loop st model data_X data_y (f # rest) =
     (case iloc_series data_y (fst f) of
        Inl e \<Rightarrow> (st, Inl e)
      | Inr ytrain \<Rightarrow>
         (case iloc_series data_y (snd f) of
            Inl e \<Rightarrow> (st, Inl e)
          | Inr ytest \<Rightarrow>
             (case fit st model (iloc_rows data_X (fst f)) ytrain of
                (st1, Inl e) \<Rightarrow> (st1, Inl e)
              | (st1, Inr r) \<Rightarrow>
                 (case predict_obj (st1 ! model) (iloc_rows data_X (snd f)) of
                    Inl e \<Rightarrow> (st1, Inl e)
                  | Inr pred \<Rightarrow>
                     (case score_metrics (snd ytest) pred of
                        Some e \<Rightarrow> (st1, Inl e)
                      | None \<Rightarrow> meta_cv_loop st1 model data_X data_y rest)))))"

text \<open>Lines 3989 to 4109: the fit on the whole assembled table, then the scoring loop.\<close>

definition fit_and_score_meta :: "store \<Rightarrow> nat \<Rightarrow> table \<Rightarrow> series \<Rightarrow> int \<Rightarrow> int \<Rightarrow> store \<times> (error + unit)" where
  "fit_and_score_meta st model data_X data_y n_fold seed =
     (case fit st model data_X data_y of
        (st1, Inl e) \<Rightarrow> (st1, Inl e)
      | (st1, Inr r) \<Rightarrow>
         (case KFold_split n_fold (Some seed) (nrows data_X) of
            Inl e \<Rightarrow> (st1, Inl e)
          | Inr folds \<Rightarrow> meta_cv_loop st1 model data_X data_y folds))"

text \<open>
  Lines 3852 to 4165, what follows the checks: the progress bar, the default of the meta
  estimator, the data, the base loop, the assembled table, the meta estimator, and the
  container that is returned.
\<close>

definition stack_models_body ::
  "env \<Rightarrow> store \<Rightarrow> nat list \<Rightarrow> nat option \<Rightarrow> int \<Rightarrow> bool \<Rightarrow> bool \<Rightarrow> store \<times> (error + item list)" where
  "stack_models_body e st estimator_list meta_model n_fold restack finalize =
     (case progress_bar (int (length estimator_list) + n_fold + 4) of
        Some err \<Rightarrow> (st, Inl err)
      | None \<Rightarrow>
     (case default_meta e st meta_model of (st0, meta) \<Rightarrow>
      (case training_data e finalize of
         Inl err \<Rightarrow> (st0, Inl err)
       | Inr (data_X, data_y, seed) \<Rightarrow>
          (case base_loop st0 estimator_list data_X data_y n_fold (DataFrame_series data_y) of
             (st1, Inl err) \<Rightarrow> (st1, Inl err)
           | (st1, Inr base_prediction) \<Rightarrow>
              (case assemble_meta_table data_X data_y
                      (model_names_fixed (map (\<lambda>r. repr_str (st0 ! r)) estimator_list))
                      restack base_prediction of
                 Inl err \<Rightarrow> (st1, Inl err)
               | Inr meta_X \<Rightarrow>
                  (case fit_and_score_meta st1 meta meta_X data_y n_fold seed of
                     (st2, Inl err) \<Rightarrow> (st2, Inl err)
                   | (st2, Inr u) \<Rightarrow>
                       (st2, Inr (map Est estimator_list @ [Est meta, Flag restack]))))))))"

definition stack_models ::
  "env \<Rightarrow> store \<Rightarrow> nat list \<Rightarrow> nat option \<Rightarrow> pyarg \<Rightarrow> pyarg \<Rightarrow> pyarg \<Rightarrow> bool \<Rightarrow> pyarg \<Rightarrow>
     store \<times> (error + item list)" where
  "stack_models e st estimator_list meta_model n_fold n_round restack finalize verbose =
     (case stack_models_checks st estimator_list meta_model n_fold n_round restack verbose of
        Some err \<Rightarrow> (st, Inl err)
      | None \<Rightarrow>
         (case (n_fold, restack) of
            (PInt k, PBool rs) \<Rightarrow> stack_models_body e st estimator_list meta_model k rs finalize
          | _ \<Rightarrow> (st, Inl TypeError)))"


section \<open>create_stacknet\<close>

definition create_stacknet_checks ::
  "store \<Rightarrow> nat list list \<Rightarrow> nat option \<Rightarrow> pyarg \<Rightarrow> pyarg \<Rightarrow> pyarg \<Rightarrow> pyarg \<Rightarrow> error option" where
  "create_stacknet_checks st estimator_list meta_model n_fold n_round restack verbose =
     (if \<not> list_all (\<lambda>i. list_all (\<lambda>j. type_ok (st ! j)) i) estimator_list then Some (SysExit value_error_msg)
      else if \<not> check_meta st meta_model then Some (SysExit value_error_msg)
      else check_params n_fold n_round restack verbose)"

text \<open>
  Lines 4410 to 4433. The monitor line reads \<^verbatim>\<open>base_level_names[base_counter]\<close>, and
  \<^verbatim>\<open>base_level_names\<close> is by then the list that the loop of line 4349 built: the read
  raises when the counter has reached its length (\<open>n_names\<close>).
\<close>

fun stacknet_base_loop ::
  "store \<Rightarrow> nat list \<Rightarrow> table \<Rightarrow> series \<Rightarrow> int \<Rightarrow> nat \<Rightarrow> nat \<Rightarrow> table \<Rightarrow> store \<times> (error + table)" where
  "stacknet_base_loop st [] data_X data_y n_fold n_names base_counter base_array_df = (st, Inr base_array_df)"
| "stacknet_base_loop st (model # rest) data_X data_y n_fold n_names base_counter base_array_df =
     (case fit st model data_X data_y of
        (st1, Inl e) \<Rightarrow> (st1, Inl e)
      | (st1, Inr r) \<Rightarrow>
         if n_names \<le> base_counter then (st1, Inl IndexError)
         else (case cross_val_predict (st1 ! model) data_X data_y n_fold of
                 Inl e \<Rightarrow> (st1, Inl e)
               | Inr base_array \<Rightarrow>
                   stacknet_base_loop st1 rest data_X data_y n_fold n_names (Suc base_counter)
                     (concat_cols base_array_df (DataFrame base_array))))"

text \<open>A one-column frame under its name: \<^verbatim>\<open>pd.DataFrame(a)\<close> followed by \<^verbatim>\<open>.columns = [col]\<close>.\<close>

definition DataFrame_named :: "string \<Rightarrow> real list \<Rightarrow> table" where
  "DataFrame_named col a = \<lparr>nrows = length a, cols = [(col, a)]\<rparr>"

text \<open>
  Lines 4451 to 4487, one intermediate level. The monitor line reads
  \<^verbatim>\<open>inter_level_names[inter_counter]\<close>, a list of \<open>n_names\<close> entries.
\<close>

fun inter_inner_loop ::
  "store \<Rightarrow> nat list \<Rightarrow> table \<Rightarrow> series \<Rightarrow> int \<Rightarrow> nat \<Rightarrow> nat \<Rightarrow> nat \<Rightarrow> table \<Rightarrow> store \<times> (error + table)" where
  "inter_inner_loop st [] base_array_df data_y n_fold n_names inter_counter model_counter inter_array_df =
     (st, Inr inter_array_df)"
| "inter_inner_loop st (model # rest) base_array_df data_y n_fold n_names inter_counter model_counter inter_array_df =
     (if n_names \<le> inter_counter then (st, Inl IndexError)
      else (case fit st model base_array_df data_y of
              (st1, Inl e) \<Rightarrow> (st1, Inl e)
            | (st1, Inr r) \<Rightarrow>
               (case cross_val_predict (st1 ! model) base_array_df data_y n_fold of
                  Inl e \<Rightarrow> (st1, Inl e)
                | Inr base_array \<Rightarrow>
                    inter_inner_loop st1 rest base_array_df data_y n_fold n_names inter_counter (Suc model_counter)
                      (concat_cols inter_array_df
                         (DataFrame_named (inter_col (repr_str (st1 ! model)) inter_counter model_counter) base_array)))))"

text \<open>
  Lines 4446 to 4497: the levels in turn. Without restacking only the last
  \<^verbatim>\<open>len(level)\<close> columns are carried forward.
\<close>

fun inter_levels_loop ::
  "store \<Rightarrow> nat list list \<Rightarrow> table \<Rightarrow> series \<Rightarrow> int \<Rightarrow> bool \<Rightarrow> nat \<Rightarrow> nat \<Rightarrow> store \<times> (error + table)" where
  "inter_levels_loop st [] base_array_df data_y n_fold restack n_names inter_counter = (st, Inr base_array_df)"
| "inter_levels_loop st (level # rest) base_array_df data_y n_fold restack n_names inter_counter =
     (case inter_inner_loop st level base_array_df data_y n_fold n_names inter_counter 0 empty_frame of
        (st1, Inl e) \<Rightarrow> (st1, Inl e)
      | (st1, Inr inter_array_df) \<Rightarrow>
         (let combined = concat_cols base_array_df inter_array_df;
              carried = (if restack = False
                         then iloc_cols_from (length (cols combined) - length level) combined
                         else combined)
          in inter_levels_loop st1 rest carried data_y n_fold restack n_names (Suc inter_counter)))"

text \<open>Lines 4340 to 4440: the base level and its table.\<close>

definition stacknet_base_table ::
  "store \<Rightarrow> nat list list \<Rightarrow> table \<Rightarrow> series \<Rightarrow> int \<Rightarrow> bool \<Rightarrow> store \<times> (error + table)" where
  "stacknet_base_table st estimator_list data_X data_y n_fold restack =
     (let base_level = hd estimator_list;
          reprs = map (\<lambda>r. repr_str (st ! r)) base_level;
          i = stale_i st estimator_list
      in case stacknet_base_loop st base_level data_X data_y n_fold
                (length (base_level_names_train reprs i)) 0 empty_frame of
           (st1, Inl e) \<Rightarrow> (st1, Inl e)
         | (st1, Inr base_array_df) \<Rightarrow>
            (case set_columns base_array_df (base_level_fixed_train reprs i) of
               Inl e \<Rightarrow> (st1, Inl e)
             | Inr named \<Rightarrow> (st1, Inr (if restack then concat_cols data_X named else named))))"

text \<open>
  Lines 4300 to 4666, what follows the checks: the progress bar, the base level
  \<^verbatim>\<open>estimator_list[0]\<close>, the data, the default of the meta estimator, the levels, the
  meta estimator, and the container that is returned.
\<close>

definition create_stacknet_body ::
  "env \<Rightarrow> store \<Rightarrow> nat list list \<Rightarrow> nat option \<Rightarrow> int \<Rightarrow> bool \<Rightarrow> bool \<Rightarrow> store \<times> (error + item list)" where
  "create_stacknet_body e st estimator_list meta_model n_fold restack finalize =
     (case progress_bar (int (length estimator_list) + n_fold + 4) of
        Some err \<Rightarrow> (st, Inl err)
      | None \<Rightarrow>
      if estimator_list = [] then (st, Inl IndexError)
      else (case training_data e finalize of
         Inl err \<Rightarrow> (st, Inl err)
       | Inr (data_X, data_y, seed) \<Rightarrow>
          (case default_meta e st meta_model of (st0, meta) \<Rightarrow>
           (case stacknet_base_table st0 estimator_list data_X data_y n_fold restack of
              (st1, Inl err) \<Rightarrow> (st1, Inl err)
            | (st1, Inr base_array_df) \<Rightarrow>
               (case inter_levels_loop st1 (tl estimator_list) base_array_df data_y n_fold restack
                       (2 * length (concat (tl estimator_list))) 0 of
                  (st2, Inl err) \<Rightarrow> (st2, Inl err)
                | (st2, Inr level_table) \<Rightarrow>
                   (case fit_and_score_meta st2 meta level_table data_y n_fold seed of
                      (st3, Inl err) \<Rightarrow> (st3, Inl err)
                    | (st3, Inr u) \<Rightarrow>
                        (st3, Inr (map Level estimator_list @ [Est meta, Flag restack]))))))))"

definition create_stacknet ::
  "env \<Rightarrow> store \<Rightarrow> nat list list \<Rightarrow> nat option \<Rightarrow> pyarg \<Rightarrow> pyarg \<Rightarrow> pyarg \<Rightarrow> bool \<Rightarrow> pyarg \<Rightarrow>
     store \<times> (error + item list)" where
  "create_stacknet e st estimator_list meta_model n_fold n_round restack finalize verbose =
     (case create_stacknet_checks st estimator_list meta_model n_fold n_round restack verbose of
        Some err \<Rightarrow> (st, Inl err)
      | None \<Rightarrow>
         (case (n_fold, restack) of
            (PInt k, PBool rs) \<Rightarrow> create_stacknet_body e st estimator_list meta_model k rs finalize
          | _ \<Rightarrow> (st, Inl TypeError)))"


section \<open>finalize_model\<close>

text \<open>What \<^verbatim>\<open>predict_model\<close> and \<^verbatim>\<open>finalize_model\<close> are handed: a list, one object, or a flag.\<close>

datatype pyvalue = PList "item list" | PObj nat | PFlag bool

text \<open>
  \<^verbatim>\<open>deepcopy\<close>: every object that the list reaches is copied once, to a new address at
  the end of the store, and the copy of the list holds the new addresses.
\<close>

definition copy_ref :: "store \<Rightarrow> (nat \<times> nat) list \<Rightarrow> nat \<Rightarrow> store \<times> (nat \<times> nat) list \<times> nat" where
  "copy_ref st memo r =
     (case map_of memo r of
        Some r' \<Rightarrow> (st, memo, r')
      | None \<Rightarrow> (st @ [st ! r], (r, length st) # memo, length st))"

fun copy_refs :: "store \<Rightarrow> (nat \<times> nat) list \<Rightarrow> nat list \<Rightarrow> store \<times> (nat \<times> nat) list \<times> nat list" where
  "copy_refs st memo [] = (st, memo, [])"
| "copy_refs st memo (r # rs) =
     (case copy_ref st memo r of (st1, memo1, r') \<Rightarrow>
        (case copy_refs st1 memo1 rs of (st2, memo2, rs') \<Rightarrow> (st2, memo2, r' # rs')))"

fun copy_items :: "store \<Rightarrow> (nat \<times> nat) list \<Rightarrow> item list \<Rightarrow> store \<times> (nat \<times> nat) list \<times> item list" where
  "copy_items st memo [] = (st, memo, [])"
| "copy_items st memo (Est r # rest) =
     (case copy_ref st memo r of (st1, memo1, r') \<Rightarrow>
        (case copy_items st1 memo1 rest of (st2, memo2, rest') \<Rightarrow> (st2, memo2, Est r' # rest')))"
| "copy_items st memo (Level l # rest) =
     (case copy_refs st memo l of (st1, memo1, l') \<Rightarrow>
        (case copy_items st1 memo1 rest of (st2, memo2, rest') \<Rightarrow> (st2, memo2, Level l' # rest')))"
| "copy_items st memo (Flag b # rest) =
     (case copy_items st memo rest of (st2, memo2, rest') \<Rightarrow> (st2, memo2, Flag b # rest'))"

definition deepcopy :: "store \<Rightarrow> item list \<Rightarrow> store \<times> item list" where
  "deepcopy st items = (case copy_items st [] items of (st1, memo, items') \<Rightarrow> (st1, items'))"

text \<open>
  The arguments as \<^verbatim>\<open>stack_models\<close> and \<^verbatim>\<open>create_stacknet\<close> see them when
  \<^verbatim>\<open>finalize_model\<close> passes items of a list: an item that is not an estimator fails the
  check of its type name, a level that is not a list cannot be iterated, an item that is
  not a flag is not a \<^verbatim>\<open>bool\<close>.
\<close>

fun est_refs :: "item list \<Rightarrow> nat list option" where
  "est_refs [] = Some []"
| "est_refs (Est r # rest) = (case est_refs rest of None \<Rightarrow> None | Some rs \<Rightarrow> Some (r # rs))"
| "est_refs (x # rest) = None"

fun level_refs :: "store \<Rightarrow> item list \<Rightarrow> error + nat list list" where
  "level_refs st [] = Inr []"
| "level_refs st (Level l # rest) =
     (if \<not> list_all (\<lambda>j. type_ok (st ! j)) l then Inl (SysExit value_error_msg)
      else (case level_refs st rest of Inl e \<Rightarrow> Inl e | Inr ls \<Rightarrow> Inr (l # ls)))"
| "level_refs st (x # rest) = Inl TypeError"

fun flag_arg :: "item \<Rightarrow> pyarg" where
  "flag_arg (Flag b) = PBool b"
| "flag_arg x = POther"

text \<open>Lines 5233 to 5265: the two stacker branches, with the defaults \<^verbatim>\<open>fold = 10\<close>, \<^verbatim>\<open>round = 4\<close>.\<close>

definition finalize_stacker :: "env \<Rightarrow> store \<Rightarrow> item list \<Rightarrow> store \<times> (error + item list)" where
  "finalize_stacker e st estimator =
     (case estimator of
        [] \<Rightarrow> (st, Inl IndexError)
      | first # others \<Rightarrow>
         (case deepcopy st estimator of (st1, stacker_final) \<Rightarrow>
            if length stacker_final < 2 then (st1, Inl IndexError)
            else (let stack_restack = last stacker_final;
                      stack_meta_final = last (butlast stacker_final);
                      levels = butlast (butlast stacker_final)
                  in case first of
                       Level l \<Rightarrow>
                        (case level_refs st1 levels of
                           Inl err \<Rightarrow> (st1, Inl err)
                         | Inr ls \<Rightarrow>
                            (case stack_meta_final of
                               Est m \<Rightarrow> create_stacknet e st1 ls (Some m) (PInt 10) (PInt 4)
                                          (flag_arg stack_restack) True (PBool False)
                             | other \<Rightarrow> (st1, Inl (SysExit value_error_msg))))
                     | other1 \<Rightarrow>
                        (case est_refs levels of
                           None \<Rightarrow> (st1, Inl (SysExit value_error_msg))
                         | Some rs \<Rightarrow>
                            (case stack_meta_final of
                               Est m \<Rightarrow> stack_models e st1 rs (Some m) (PInt 10) (PInt 4)
                                          (flag_arg stack_restack) True (PBool False)
                             | other \<Rightarrow> (st1, Inl (SysExit value_error_msg)))))))"

text \<open>Lines 5267 to 5269: one object is copied and fitted on all the data.\<close>

definition finalize_object :: "env \<Rightarrow> store \<Rightarrow> nat \<Rightarrow> store \<times> (error + nat)" where
  "finalize_object e st r =
     (let st1 = st @ [st ! r] in
      case fit_impl (st ! r) of
        None \<Rightarrow> (st1, Inl AttributeError)
      | Some accepts \<Rightarrow>
         (case session e of
            None \<Rightarrow> (st1, Inl NameError)
          | Some g \<Rightarrow> fit st1 (length st) (g_X g) (g_y g)))"

definition finalize_model :: "env \<Rightarrow> store \<Rightarrow> pyvalue \<Rightarrow> store \<times> (error + pyvalue)" where
  "finalize_model e st estimator =
     (case estimator of
        PList items \<Rightarrow>
         (case finalize_stacker e st items of
            (st1, Inl err) \<Rightarrow> (st1, Inl err)
          | (st1, Inr c) \<Rightarrow> (st1, Inr (PList c)))
      | PObj r \<Rightarrow>
         (case finalize_object e st r of
            (st1, Inl err) \<Rightarrow> (st1, Inl err)
          | (st1, Inr r') \<Rightarrow> (st1, Inr (PObj r')))
      | PFlag b \<Rightarrow> (st, Inl AttributeError))"


section \<open>predict_model\<close>

text \<open>\<^verbatim>\<open>str(type(x))\<close> and \<^verbatim>\<open>str(x)\<close> of an item of a list.\<close>

fun item_type_str :: "store \<Rightarrow> item \<Rightarrow> string" where
  "item_type_str st (Est r) = type_str (st ! r)"
| "item_type_str st (Level l) = ''<class 'list'>''"
| "item_type_str st (Flag b) = ''<class 'bool'>''"

fun item_str :: "store \<Rightarrow> item \<Rightarrow> string" where
  "item_str st (Est r) = repr_str (st ! r)"
| "item_str st (Level l) = py_str_list (map (\<lambda>r. repr_str (st ! r)) l)"
| "item_str st (Flag b) = (if b then ''True'' else ''False'')"

text \<open>\<^verbatim>\<open>x.predict(table)\<close> on an item: only an estimator has the method.\<close>

fun item_predict :: "store \<Rightarrow> item \<Rightarrow> table \<Rightarrow> error + real list" where
  "item_predict st (Est r) t = predict_obj (st ! r) t"
| "item_predict st x t = Inl AttributeError"

fun item_value :: "item \<Rightarrow> pyvalue" where
  "item_value (Est r) = PObj r"
| "item_value (Level l) = PList (map Est l)"
| "item_value (Flag b) = PFlag b"

text \<open>\<^verbatim>\<open>for i in x\<close>: only a list can be iterated.\<close>

fun item_iter :: "item \<Rightarrow> error + nat list" where
  "item_iter (Level l) = Inr l"
| "item_iter x = Inl TypeError"

text \<open>
  The loops \<^verbatim>\<open>for i in stacker: p = i.predict(Xtest)\<close> followed by the column-wise
  concatenation of the predictions (lines 5649 to 5657 and 5785 to 5794).
\<close>

fun base_predictions :: "store \<Rightarrow> item list \<Rightarrow> table \<Rightarrow> error + real list list" where
  "base_predictions st [] Xtest = Inr []"
| "base_predictions st (i # rest) Xtest =
     (case item_predict st i Xtest of
        Inl e \<Rightarrow> Inl e
      | Inr p \<Rightarrow> (case base_predictions st rest Xtest of Inl e \<Rightarrow> Inl e | Inr ps \<Rightarrow> Inr (p # ps)))"

definition concat_frames :: "real list list \<Rightarrow> table" where
  "concat_frames ps = foldl (\<lambda>df p. concat_cols df (DataFrame p)) empty_frame ps"

text \<open>\<^verbatim>\<open>try: a except: b\<close> on results: whatever the first raises, the second runs.\<close>

definition try_except :: "error + 'a \<Rightarrow> error + 'a \<Rightarrow> error + 'a" where
  "try_except a b = (case a of Inl e \<Rightarrow> b | Inr v \<Rightarrow> Inr v)"

text \<open>
  Lines 5751 to 5808, the single-layer branch: the restack flag is popped, the named
  base predictions form \<^verbatim>\<open>df\<close>, and the meta estimator is tried on \<^verbatim>\<open>df\<close> and then on
  \<^verbatim>\<open>df_restack\<close>.
\<close>

definition predict_single_layer :: "store \<Rightarrow> item list \<Rightarrow> table \<Rightarrow> error + real list" where
  "predict_single_layer st model Xtest =
     (if length model < 2 then Inl IndexError
      else (let restack = last model;
                meta_model = last (butlast model);
                stacker = butlast (butlast model);
                model_names = model_names_fixed (map (item_str st) stacker)
            in case base_predictions st stacker Xtest of
                 Inl e \<Rightarrow> Inl e
               | Inr base_pred \<Rightarrow>
                  (case set_columns (concat_frames base_pred) model_names of
                     Inl e \<Rightarrow> Inl e
                   | Inr df \<Rightarrow>
                      try_except (item_predict st meta_model df)
                                 (item_predict st meta_model (concat_cols Xtest df)))))"

text \<open>
  Lines 5680 to 5704, the estimators of one intermediate level. \<open>last_level_df\<close> is
  \<open>None\<close> before the first level has ended: reading it would raise, inside the \<^verbatim>\<open>try\<close>.
\<close>

definition inter_predict ::
  "store \<Rightarrow> nat \<Rightarrow> nat \<Rightarrow> table \<Rightarrow> table \<Rightarrow> table option \<Rightarrow> table \<Rightarrow> error + real list" where
  "inter_predict st model inter_counter base_pred_df base_pred_df_no_restack last_level_df combined_df =
     try_except
       (if inter_counter = 0
        then try_except (predict_obj (st ! model) base_pred_df)
                        (predict_obj (st ! model) base_pred_df_no_restack)
        else (case last_level_df of
                None \<Rightarrow> Inl NameError
              | Some t \<Rightarrow> predict_obj (st ! model) t))
       (predict_obj (st ! model) combined_df)"

fun inter_level_predict ::
  "store \<Rightarrow> nat list \<Rightarrow> nat \<Rightarrow> nat \<Rightarrow> table \<Rightarrow> table \<Rightarrow> table option \<Rightarrow> table \<Rightarrow> table \<Rightarrow> error + table" where
  "inter_level_predict st [] inter_counter model_counter bp bpn last_level_df combined_df inter_pred_df =
     Inr inter_pred_df"
| "inter_level_predict st (model # rest) inter_counter model_counter bp bpn last_level_df combined_df inter_pred_df =
     (case inter_predict st model inter_counter bp bpn last_level_df combined_df of
        Inl e \<Rightarrow> Inl e
      | Inr p \<Rightarrow>
          inter_level_predict st rest inter_counter (Suc model_counter) bp bpn last_level_df combined_df
            (concat_cols inter_pred_df
               (DataFrame_named (inter_col (repr_str (st ! model)) inter_counter model_counter) p)))"

text \<open>
  Lines 5674 to 5710, the levels in turn. The result is \<^verbatim>\<open>combined_df\<close> and
  \<^verbatim>\<open>inter_pred_df\<close>, which does not exist when there is no level.
\<close>

fun inter_levels_predict ::
  "store \<Rightarrow> item list \<Rightarrow> nat \<Rightarrow> table \<Rightarrow> table \<Rightarrow> table option \<Rightarrow> table \<Rightarrow> error + (table \<times> table option)" where
  "inter_levels_predict st [] inter_counter bp bpn last_level_df combined_df = Inr (combined_df, last_level_df)"
| "inter_levels_predict st (level # rest) inter_counter bp bpn last_level_df combined_df =
     (case item_iter level of
        Inl e \<Rightarrow> Inl e
      | Inr l \<Rightarrow>
         (case inter_level_predict st l inter_counter 0 bp bpn last_level_df combined_df empty_frame of
            Inl e \<Rightarrow> Inl e
          | Inr inter_pred_df \<Rightarrow>
              inter_levels_predict st rest (Suc inter_counter) bp bpn (Some inter_pred_df)
                (concat_cols combined_df inter_pred_df)))"

text \<open>Lines 5611 to 5720, the multi-layer branch.\<close>

definition predict_multi_layer :: "store \<Rightarrow> item list \<Rightarrow> table \<Rightarrow> error + real list" where
  "predict_multi_layer st model Xtest =
     (if length model < 3 then Inl IndexError
      else (let restack = last model;
                stacker_meta = last (butlast model);
                stacker_base = hd model;
                stacker = tl (butlast (butlast model))
            in case item_iter stacker_base of
                 Inl e \<Rightarrow> Inl e
               | Inr base \<Rightarrow>
                  (case base_predictions st (map Est base) Xtest of
                     Inl e \<Rightarrow> Inl e
                   | Inr base_pred \<Rightarrow>
                      (case set_columns (concat_frames base_pred)
                              (base_level_fixed_predict (map (\<lambda>r. repr_str (st ! r)) base)) of
                         Inl e \<Rightarrow> Inl e
                       | Inr base_pred_df_no_restack \<Rightarrow>
                          (let base_pred_df = concat_cols Xtest base_pred_df_no_restack in
                           case inter_levels_predict st stacker 0 base_pred_df base_pred_df_no_restack
                                  None base_pred_df of
                             Inl e \<Rightarrow> Inl e
                           | Inr (combined_df, inter_pred_df) \<Rightarrow>
                              try_except (item_predict st stacker_meta combined_df)
                                (case inter_pred_df of
                                   None \<Rightarrow> Inl NameError
                                 | Some t \<Rightarrow> item_predict st stacker_meta t))))))"


text \<open>
  Lines 5603 to 5870: the branch is chosen by \<^verbatim>\<open>estimator\<close>, the prediction is made
  with \<^verbatim>\<open>model\<close>.
\<close>

definition predict_value :: "store \<Rightarrow> pyvalue \<Rightarrow> pyvalue \<Rightarrow> table \<Rightarrow> error + real list" where
  "predict_value st estimator model Xtest =
     (case estimator of
        PList items \<Rightarrow>
         (case items of
            [] \<Rightarrow> Inl IndexError
          | first # others \<Rightarrow>
             (case model of
                PList m \<Rightarrow>
                 (case first of
                    Level l \<Rightarrow> predict_multi_layer st m Xtest
                  | other \<Rightarrow> predict_single_layer st m Xtest)
              | other \<Rightarrow> Inl TypeError))
      | PObj r \<Rightarrow>
         (case model of
            PObj m \<Rightarrow> predict_obj (st ! m) Xtest
          | other \<Rightarrow> Inl AttributeError)
      | PFlag b \<Rightarrow> Inl AttributeError)"

text \<open>Lines 5824 to 5827: the predictions, rounded, as the column \<^verbatim>\<open>Label\<close>.\<close>

definition label_frame :: "env \<Rightarrow> int \<Rightarrow> real list \<Rightarrow> table" where
  "label_frame e n_round pred = DataFrame_named ''Label'' (map (np_round e n_round) pred)"

fun item_transform :: "store \<Rightarrow> item \<Rightarrow> table \<Rightarrow> error + table" where
  "item_transform st (Est r) t = transform_obj (st ! r) t"
| "item_transform st x t = Inl AttributeError"

definition prep_transform :: "globals \<Rightarrow> table \<Rightarrow> error + table" where
  "prep_transform g t = (case g_prep_pipe g t of None \<Rightarrow> Inl EstimatorError | Some r \<Rightarrow> Inr r)"

text \<open>
  Lines 5569 to 5589: which transformer prepares the data and which value is the
  estimator. A list whose first item is a \<^verbatim>\<open>Pipeline\<close> is read as a transformer followed
  by the model.
\<close>

definition choose_transformer ::
  "env \<Rightarrow> store \<Rightarrow> pyvalue \<Rightarrow> store \<times> (error + ((table \<Rightarrow> error + table) \<times> pyvalue))" where
  "choose_transformer e st estimator =
     (case estimator of
        PList items \<Rightarrow>
         (case deepcopy st items of (st1, estimator_c) \<Rightarrow>
           (case estimator_c of
              [] \<Rightarrow> (st1, Inl IndexError)
            | first # others \<Rightarrow>
               if contains ''sklearn.pipeline.Pipeline'' (item_type_str st1 first)
               then (case others of
                       [] \<Rightarrow> (st1, Inl IndexError)
                     | second # rest \<Rightarrow> (st1, Inr (item_transform st1 first, item_value second)))
               else (case session e of
                       None \<Rightarrow> (st1, Inl NameError)
                     | Some g \<Rightarrow> (st1, Inr (prep_transform g, estimator)))))
      | other \<Rightarrow>
         (case session e of
            None \<Rightarrow> (st, Inl NameError)
          | Some g \<Rightarrow> (st, Inr (prep_transform g, estimator))))"

text \<open>Lines 5591 to 5594: \<^verbatim>\<open>try: model = finalize_model(estimator) except: model = estimator\<close>.\<close>

definition inference_model :: "env \<Rightarrow> store \<Rightarrow> pyvalue \<Rightarrow> store \<times> pyvalue" where
  "inference_model e st estimator =
     (case finalize_model e st estimator of
        (st1, Inl err) \<Rightarrow> (st1, estimator)
      | (st1, Inr model) \<Rightarrow> (st1, model))"

text \<open>
  \<^verbatim>\<open>predict_model(estimator, data, round)\<close> for an estimator that is not a file name.
  Without data the hold-out set of the session is predicted and scored against
  \<^verbatim>\<open>y_test\<close> (lines 5722, 5811 and 5872, one in each branch, after the prediction); with
  data the result is the data followed by the labels.
\<close>

definition predict_model :: "env \<Rightarrow> store \<Rightarrow> pyvalue \<Rightarrow> table option \<Rightarrow> int \<Rightarrow> error + table" where
  "predict_model e st estimator data n_round =
     (case data of
        None \<Rightarrow>
         (case session e of
            None \<Rightarrow> Inl NameError
          | Some g \<Rightarrow>
             (case predict_value st estimator estimator (g_X_test g) of
                Inl err \<Rightarrow> Inl err
              | Inr pred \<Rightarrow>
                 (case score_metrics (snd (g_y_test g)) pred of
                    Some err \<Rightarrow> Inl err
                  | None \<Rightarrow>
                     Inr (concat_cols (concat_cols (g_X_test g) (DataFrame_series (g_y_test g)))
                            (label_frame e n_round pred)))))
      | Some d \<Rightarrow>
         (case choose_transformer e st estimator of
            (st1, Inl err) \<Rightarrow> Inl err
          | (st1, Inr (prep, est)) \<Rightarrow>
             (case inference_model e st1 est of (st2, model) \<Rightarrow>
               (case prep d of
                  Inl err \<Rightarrow> Inl err
                | Inr Xtest \<Rightarrow>
                   (case predict_value st2 est model Xtest of
                      Inl err \<Rightarrow> Inl err
                    | Inr pred \<Rightarrow> Inr (concat_cols d (label_frame e n_round pred)))))))"


section \<open>Example objects\<close>

text \<open>
  Concrete objects and data on which the theorems below are evaluated. \<open>ex_strict\<close>
  is an estimator in the manner of the library's regressors: it predicts only after a
  fit and only a table with as many columns as it was fitted on; its prediction for
  each row is that number of columns, so that a result shows which table was used.
  \<open>ex_lenient\<close> predicts any table once fitted (as the library's \<^verbatim>\<open>DummyRegressor\<close>
  does) and \<open>ex_const\<close> predicts a constant.
\<close>

definition ex_strict :: "string \<Rightarrow> string \<Rightarrow> pyobject" where
  "ex_strict ty rp =
     \<lparr>type_str = ty, repr_str = rp,
      fit_impl = Some (\<lambda>X y. True),
      predict_impl = Some (\<lambda>tr t. case tr of
                              None \<Rightarrow> None
                            | Some d \<Rightarrow> if length (cols t) = length (cols (fst d))
                                        then Some (replicate (nrows t) (real (length (cols t))))
                                        else None),
      transform_impl = None,
      trained_on = None\<rparr>"

definition ex_lenient :: "string \<Rightarrow> string \<Rightarrow> pyobject" where
  "ex_lenient ty rp =
     \<lparr>type_str = ty, repr_str = rp,
      fit_impl = Some (\<lambda>X y. True),
      predict_impl = Some (\<lambda>tr t. case tr of
                              None \<Rightarrow> None
                            | Some d \<Rightarrow> Some (replicate (nrows t) (real (length (cols t))))),
      transform_impl = None,
      trained_on = None\<rparr>"

definition ex_const :: "string \<Rightarrow> string \<Rightarrow> real \<Rightarrow> pyobject" where
  "ex_const ty rp c =
     \<lparr>type_str = ty, repr_str = rp,
      fit_impl = Some (\<lambda>X y. True),
      predict_impl = Some (\<lambda>tr t. Some (replicate (nrows t) c)),
      transform_impl = None,
      trained_on = None\<rparr>"

definition ex_dt :: pyobject where
  "ex_dt = ex_strict ''<class 'sklearn.tree._classes.DecisionTreeRegressor'>'' ''DecisionTreeRegressor(max_depth=None)''"

definition ex_rf :: pyobject where
  "ex_rf = ex_strict ''<class 'sklearn.ensemble._forest.RandomForestRegressor'>'' ''RandomForestRegressor(n_estimators=10)''"

definition ex_ada :: pyobject where
  "ex_ada = ex_strict ''<class 'sklearn.ensemble._weight_boosting.AdaBoostRegressor'>'' ''AdaBoostRegressor(n_estimators=50)''"

definition ex_ridge :: pyobject where
  "ex_ridge = ex_strict ''<class 'sklearn.linear_model._ridge.Ridge'>'' ''Ridge(alpha=1.0)''"

definition ex_knn :: pyobject where
  "ex_knn = ex_strict ''<class 'sklearn.neighbors._regression.KNeighborsRegressor'>'' ''KNeighborsRegressor(n_neighbors=5)''"

definition ex_cb :: pyobject where
  "ex_cb = ex_strict ''<class 'catboost.core.CatBoostRegressor'>'' ''<catboost.core.CatBoostRegressor object at 0x7f3a>''"

definition ex_lr :: pyobject where
  "ex_lr = ex_strict ''<class 'sklearn.linear_model._base.LinearRegression'>'' ''LinearRegression()''"

definition ex_dummy :: pyobject where
  "ex_dummy = ex_lenient ''<class 'sklearn.dummy.DummyRegressor'>'' ''DummyRegressor(strategy='mean')''"

text \<open>An estimator of the caller's own, with \<^verbatim>\<open>fit\<close> and \<^verbatim>\<open>predict\<close>.\<close>

definition ex_custom :: pyobject where
  "ex_custom = ex_strict ''<class '__main__.MyRegressor'>'' ''<__main__.MyRegressor object at 0x7f3b>''"

text \<open>A scaler of the library: \<^verbatim>\<open>fit\<close> and \<^verbatim>\<open>transform\<close>, no \<^verbatim>\<open>predict\<close>.\<close>

definition ex_scaler :: pyobject where
  "ex_scaler =
     \<lparr>type_str = ''<class 'sklearn.preprocessing._data.StandardScaler'>'',
      repr_str = ''StandardScaler()'',
      fit_impl = Some (\<lambda>X y. True),
      predict_impl = None,
      transform_impl = Some (\<lambda>t. Some t),
      trained_on = None\<rparr>"

text \<open>
  A \<^verbatim>\<open>Pipeline\<close> of the library whose last step both predicts and transforms (a partial
  least squares regression, say): a regressor with \<^verbatim>\<open>fit\<close>, \<^verbatim>\<open>predict\<close> and \<^verbatim>\<open>transform\<close>.
\<close>

definition ex_pipe :: pyobject where
  "ex_pipe =
     \<lparr>type_str = ''<class 'sklearn.pipeline.Pipeline'>'',
      repr_str = ''Pipeline(steps=[('pls', PLSRegression())])'',
      fit_impl = Some (\<lambda>X y. True),
      predict_impl = Some (\<lambda>tr t. Some (replicate (nrows t) 5)),
      transform_impl = Some (\<lambda>t. Some t),
      trained_on = None\<rparr>"

definition ex_X :: table where
  "ex_X = \<lparr>nrows = 4, cols = [(''f1'', [1, 2, 3, 4]), (''f2'', [5, 6, 7, 8])]\<rparr>"

definition ex_y :: series where
  "ex_y = (''medv'', [10, 20, 30, 40])"

definition ex_globals :: globals where
  "ex_globals =
     \<lparr>g_X = ex_X, g_y = ex_y, g_X_train = ex_X, g_y_train = ex_y, g_X_test = ex_X, g_y_test = ex_y,
      g_seed = 123, g_prep_pipe = (\<lambda>t. Some t)\<rparr>"

text \<open>Rounding to \<open>n\<close> decimals, halves upwards.\<close>

definition ex_round :: "int \<Rightarrow> real \<Rightarrow> real" where
  "ex_round n x = real_of_int \<lfloor>x * 10 ^ nat n + 1 / 2\<rfloor> / 10 ^ nat n"

definition ex_env :: env where
  "ex_env = \<lparr>LinearRegression = ex_lr, np_round = ex_round, session = Some ex_globals\<rparr>"

text \<open>A session in which \<^verbatim>\<open>setup()\<close> has not run.\<close>

definition ex_env_fresh :: env where
  "ex_env_fresh = \<lparr>LinearRegression = ex_lr, np_round = ex_round, session = None\<rparr>"


section \<open>The single-layer inference in the words of the spec\<close>


section \<open>Example containers\<close>

text \<open>
  The store after a single-layer training with restacking, base estimator \<open>ex_dt\<close> at
  address 0 and meta estimator \<open>ex_dummy\<close> at address 1; and the store after a
  two-level training without restacking: base level at 0 and 1, one intermediate
  estimator at 2, the given meta estimator at 3.
\<close>

definition ex_single_store :: store where
  "ex_single_store =
     fst (stack_models ex_env [ex_dt, ex_dummy] [0] (Some 1) (PInt 2) (PInt 4) (PBool True) False (PBool True))"

definition ex_multi_store :: "pyobject \<Rightarrow> store" where
  "ex_multi_store meta =
     fst (create_stacknet ex_env [ex_cb, ex_rf, ex_lr, meta] [[0, 1], [2]] (Some 3) (PInt 2) (PInt 4) (PBool False) False (PBool True))"

text \<open>
  The store after the training of a stack net that has a base level only: one base
  estimator at address 0, the given meta estimator at 1, no restacking.
\<close>

definition ex_base_store :: store where
  "ex_base_store =
     fst (create_stacknet ex_env [ex_rf, ex_ridge] [[0]] (Some 1) (PInt 2) (PInt 4) (PBool False) False (PBool True))"

text \<open>
  Two estimators of the library that predict a constant, and the store after a
  single-layer training whose first base estimator is the pipeline \<open>ex_pipe\<close>: base
  estimators at addresses 0 and 1, meta estimator at 2.
\<close>

definition ex_seven :: pyobject where
  "ex_seven = ex_const ''<class 'sklearn.dummy.DummyRegressor'>'' ''DummyRegressor(constant=7)'' 7"

definition ex_nine :: pyobject where
  "ex_nine = ex_const ''<class 'sklearn.dummy.DummyRegressor'>'' ''DummyRegressor(constant=9)'' 9"

definition ex_pipe_store :: store where
  "ex_pipe_store =
     fst (stack_models ex_env [ex_pipe, ex_seven, ex_nine] [0, 1] (Some 2) (PInt 2) (PInt 4) (PBool False) False (PBool True))"

section \<open>Fitting, the store and the fold splitter\<close>


lemma fit_length: "fit st r X y = (st', res) \<Longrightarrow> length st' = length st"
  by (auto simp: fit_def split: sum.splits)

lemma fit_Inr:
  "fit st r X y = (st', Inr r') \<Longrightarrow> r' = r \<and> st' = st[r := (st ! r)\<lparr>trained_on := Some (X, y)\<rparr>]"
  by (auto simp: fit_def fit_obj_def split: sum.splits option.splits if_splits)

lemma fit_Inl: "fit st r X y = (st', Inl e) \<Longrightarrow> st' = st \<and> (e = AttributeError \<or> e = EstimatorError)"
  by (auto simp: fit_def fit_obj_def split: sum.splits option.splits if_splits)

lemma clone_update: "clone (obj\<lparr>trained_on := t\<rparr>) = clone obj"
  by (simp add: clone_def)

lemma fit_clone: "fit st r X y = (st', res) \<Longrightarrow> clone (st' ! i) = clone (st ! i)"
proof (cases res)
  case (Inl e)
  assume "fit st r X y = (st', res)"
  with Inl show ?thesis by (auto dest: fit_Inl)
next
  case (Inr r')
  assume "fit st r X y = (st', res)"
  with Inr have st': "st' = st[r := (st ! r)\<lparr>trained_on := Some (X, y)\<rparr>]" by (auto dest: fit_Inr)
  show ?thesis
  proof (cases "i = r \<and> r < length st")
    case True
    then show ?thesis by (simp add: st' clone_update)
  next
    case False
    then show ?thesis by (cases "r < length st") (auto simp: st' list_update_beyond)
  qed
qed

lemma fit_trained:
  "fit st r X y = (st', Inr r') \<Longrightarrow> r < length st \<Longrightarrow> trained_on (st' ! r) = Some (X, y)"
  by (auto dest: fit_Inr)

lemma meta_cv_loop_length:
  "meta_cv_loop st m X y folds = (st', res) \<Longrightarrow> length st' = length st"
proof (induction folds arbitrary: st)
  case Nil
  then show ?case by simp
next
  case (Cons f folds)
  then show ?case
    by (auto split: sum.splits prod.splits option.splits dest: fit_length)
qed

lemma meta_cv_loop_last:
  "meta_cv_loop st m X y folds = (st', Inr u) \<Longrightarrow> folds \<noteq> [] \<Longrightarrow> m < length st \<Longrightarrow>
     \<exists>ytr. iloc_series y (fst (last folds)) = Inr ytr \<and>
           trained_on (st' ! m) = Some (iloc_rows X (fst (last folds)), ytr)"
proof (induction folds arbitrary: st)
  case Nil
  then show ?case by simp
next
  case (Cons f folds)
  from Cons.prems(1) obtain ytrain st1 r where
    y: "iloc_series y (fst f) = Inr ytrain" and
    f: "fit st m (iloc_rows X (fst f)) ytrain = (st1, Inr r)" and
    rest: "meta_cv_loop st1 m X y folds = (st', Inr u)"
    by (auto split: sum.splits prod.splits option.splits)
  have len: "length st1 = length st" using f by (rule fit_length)
  show ?case
  proof (cases "folds = []")
    case True
    with rest have "st' = st1" by simp
    with f Cons.prems(3) y True show ?thesis by (auto dest: fit_trained)
  next
    case False
    with Cons.IH[OF rest False] len Cons.prems(3) show ?thesis by simp
  qed
qed


lemma fold_start_all: "0 < K \<Longrightarrow> fold_start N K K = N"
proof -
  assume "0 < K"
  then have "N mod K < K" by simp
  then have "min K (N mod K) = N mod K" by simp
  then show ?thesis by (simp add: fold_start_def)
qed

lemma fold_start_before_last: "2 \<le> K \<Longrightarrow> K \<le> N \<Longrightarrow> fold_start N K (K - 1) < N"
proof -
  assume K: "2 \<le> K" and N: "K \<le> N"
  define q where "q = N div K"
  define r where "r = N mod K"
  have q: "1 \<le> q" using K N by (simp add: q_def div_greater_zero_iff Suc_leI)
  have N_eq: "N = K * q + r" by (simp add: q_def r_def)
  obtain k where k: "K = Suc k" using K by (cases K) auto
  have lt: "(K - 1) * q + min (K - 1) r < K * q + r" using q by (simp add: k)
  have "fold_start N K (K - 1) = (K - 1) * q + min (K - 1) r"
    by (simp add: fold_start_def q_def r_def)
  with lt N_eq show ?thesis by linarith
qed

lemma KFold_split_Inr:
  assumes "KFold_split K s N = Inr folds"
  shows "2 \<le> K" and "K \<le> int N" and "length folds = nat K" and "folds \<noteq> []"
    and "length (fst (last folds)) < N"
proof -
  from assms have K: "2 \<le> K" "K \<le> int N"
    and folds: "folds = map (\<lambda>i. ([0..<fold_start N (nat K) i] @ [fold_start N (nat K) (Suc i)..<N],
                          [fold_start N (nat K) i..<fold_start N (nat K) (Suc i)])) [0..<nat K]"
    by (auto simp: KFold_split_def split: if_splits)
  show "2 \<le> K" "K \<le> int N" by fact+
  show len: "length folds = nat K" by (simp add: folds)
  from K len show ne: "folds \<noteq> []" by auto
  have k: "2 \<le> nat K" "nat K \<le> N" using K by auto
  then have up: "[0..<nat K] = [0..<nat K - 1] @ [nat K - 1]"
    by (metis Suc_diff_1 less_le_trans pos2 upt_Suc_append zero_le)
  have "last folds = ([0..<fold_start N (nat K) (nat K - 1)] @ [fold_start N (nat K) (Suc (nat K - 1))..<N],
                          [fold_start N (nat K) (nat K - 1)..<fold_start N (nat K) (Suc (nat K - 1))])"
    by (subst folds, subst up) simp
  moreover have "Suc (nat K - 1) = nat K" using k by simp
  ultimately have "length (fst (last folds)) = fold_start N (nat K) (nat K - 1) + (N - fold_start N (nat K) (nat K))"
    by simp
  also have "\<dots> = fold_start N (nat K) (nat K - 1)" using k by (simp add: fold_start_all)
  also have "\<dots> < N" using k by (rule fold_start_before_last)
  finally show "length (fst (last folds)) < N" .
qed

lemma KFold_split_seed: "KFold_split K s N = KFold_split K s' N"
  by (simp add: KFold_split_def)

lemma fit_and_score_meta_refit:
  assumes "fit_and_score_meta st m X y K seed = (st', Inr u)" and "m < length st"
  shows "\<exists>T ys. trained_on (st' ! m) = Some (T, ys) \<and> nrows T < nrows X"
proof -
  from assms(1) obtain st1 r folds where
    f: "fit st m X y = (st1, Inr r)" and
    k: "KFold_split K (Some seed) (nrows X) = Inr folds" and
    l: "meta_cv_loop st1 m X y folds = (st', Inr u)"
    by (auto simp: fit_and_score_meta_def split: sum.splits prod.splits)
  have len: "m < length st1" using f assms(2) by (auto dest: fit_length)
  from meta_cv_loop_last[OF l KFold_split_Inr(4)[OF k] len] obtain ytr where
    "trained_on (st' ! m) = Some (iloc_rows X (fst (last folds)), ytr)" by blast
  moreover have "nrows (iloc_rows X (fst (last folds))) < nrows X"
    using KFold_split_Inr(5)[OF k] by (simp add: iloc_rows_def)
  ultimately show ?thesis by blast
qed


lemma base_loop_length:
  "base_loop st l X y k bp = (st', res) \<Longrightarrow> length st' = length st"
proof (induction l arbitrary: st bp)
  case Nil
  then show ?case by simp
next
  case (Cons m l)
  then show ?case
    by (auto split: sum.splits prod.splits dest: fit_length)
qed

lemma default_meta_valid:
  "default_meta e st mm = (st0, m) \<Longrightarrow> (\<forall>r. mm = Some r \<longrightarrow> r < length st) \<Longrightarrow> m < length st0"
  by (auto simp: default_meta_def split: option.splits)

lemma stack_models_body_Inr:
  assumes "stack_models_body e st l mm k rs fin = (st', Inr c)"
  shows "\<exists>st0 m X y seed st1 bp meta_X.
           default_meta e st mm = (st0, m) \<and>
           training_data e fin = Inr (X, y, seed) \<and>
           base_loop st0 l X y k (DataFrame_series y) = (st1, Inr bp) \<and>
           assemble_meta_table X y (model_names_fixed (map (\<lambda>r. repr_str (st0 ! r)) l)) rs bp = Inr meta_X \<and>
           fit_and_score_meta st1 m meta_X y k seed = (st', Inr ()) \<and>
           c = map Est l @ [Est m, Flag rs]"
  using assms
  by (auto simp: stack_models_body_def split: prod.splits sum.splits option.splits)

lemma stack_models_Inr:
  assumes "stack_models e st l mm f r rs fin v = (st', Inr c)"
  shows "\<exists>k b. f = PInt k \<and> rs = PBool b \<and> stack_models_checks st l mm f r rs v = None \<and>
               stack_models_body e st l mm k b fin = (st', Inr c)"
  using assms
  by (auto simp: stack_models_def split: option.splits pyarg.splits)


section \<open>The claims\<close>

subsection \<open>Training: the base names and the meta estimator\<close>

text \<open>
  C1. The claim: the engineered column names of the base level that \<^verbatim>\<open>create_stacknet\<close>
  builds in training are the names that \<^verbatim>\<open>predict_model\<close> rebuilds, one per estimator
  and in the same order. For the call of the function's own documentation,
  \<^verbatim>\<open>[[dt, rf], [ada, ridge, knn]]\<close>, the training loop of line 4349 builds one name
  (the last estimator's, with counter 0), the inference loop builds two, and the
  training call ends in an \<^verbatim>\<open>IndexError\<close> at the monitor line of the base level. For the
  base level \<^verbatim>\<open>[dt, catboost]\<close> training succeeds; the intermediate estimator is fitted
  on two columns whose names are not the two that inference builds for that container.
\<close>

theorem create_stacknet_base_names_diverge:
  "base_level_fixed_train (map repr_str [ex_dt, ex_rf])
       (stale_i [ex_dt, ex_rf, ex_ada, ex_ridge, ex_knn] [[0, 1], [2, 3, 4]])
     = [''RandomForestRegressor_BaseLevel_0'']
   \<and> base_level_fixed_predict (map repr_str [ex_dt, ex_rf])
     = [''DecisionTreeRegressor_BaseLevel_0'', ''RandomForestRegressor_BaseLevel_1'']
   \<and> snd (create_stacknet ex_env [ex_dt, ex_rf, ex_ada, ex_ridge, ex_knn] [[0, 1], [2, 3, 4]] None
             (PInt 2) (PInt 4) (PBool False) False (PBool True)) = Inl IndexError
   \<and> snd (create_stacknet ex_env [ex_dt, ex_cb, ex_lr] [[0, 1], [2]] None
             (PInt 2) (PInt 4) (PBool False) False (PBool True))
     = Inr [Level [0, 1], Level [2], Est 3, Flag False]
   \<and> map_option (\<lambda>d. map fst (cols (fst d)))
        (trained_on (fst (create_stacknet ex_env [ex_dt, ex_cb, ex_lr] [[0, 1], [2]] None
                            (PInt 2) (PInt 4) (PBool False) False (PBool True)) ! 2))
     = Some [''CatBoostRegressor_BaseLevel_0'',
             ''<catboost.core.CatBoostRegressor object at 0x7f3a>_BaseLevel_1'']
   \<and> base_level_fixed_predict (map repr_str [ex_dt, ex_cb])
     = [''DecisionTreeRegressor_BaseLevel_0'', ''CatBoostRegressor_BaseLevel_1'']"
  by code_simp

text \<open>
  C5. The claim: the meta estimator of the container that \<^verbatim>\<open>stack_models\<close> returns is
  the fit on the whole assembled table and is not fitted again afterwards. In every
  successful call the scoring loop has fitted that same object again, and its last fit
  is on the train rows of the last fold: fewer rows than the assembled table has.
\<close>

theorem stack_models_meta_refit:
  assumes "stack_models e st l mm f r rs fin v = (st', Inr c)"
    and "\<forall>a. mm = Some a \<longrightarrow> a < length st"
  shows "\<exists>m st1 meta_X y k seed T ys.
           c = map Est l @ [Est m, last c] \<and>
           fit_and_score_meta st1 m meta_X y k seed = (st', Inr ()) \<and>
           trained_on (st' ! m) = Some (T, ys) \<and> nrows T < nrows meta_X"
proof -
  from stack_models_Inr[OF assms(1)] obtain k b where
    body: "stack_models_body e st l mm k b fin = (st', Inr c)" by blast
  from stack_models_body_Inr[OF body] obtain st0 m X y seed st1 bp meta_X where
    dm: "default_meta e st mm = (st0, m)" and
    bl: "base_loop st0 l X y k (DataFrame_series y) = (st1, Inr bp)" and
    fs: "fit_and_score_meta st1 m meta_X y k seed = (st', Inr ())" and
    c: "c = map Est l @ [Est m, Flag b]"
    by blast
  have "m < length st0" using dm assms(2) by (rule default_meta_valid)
  then have m: "m < length st1" using bl by (simp add: base_loop_length)
  from fit_and_score_meta_refit[OF fs m] obtain T ys where
    T: "trained_on (st' ! m) = Some (T, ys)" "nrows T < nrows meta_X" by blast
  have "c = map Est l @ [Est m, last c]" using c by simp
  with fs T show ?thesis by blast
qed

theorem stack_models_meta_refit_witness:
  "snd (stack_models ex_env [ex_dt, ex_rf] [0, 1] None (PInt 2) (PInt 4) (PBool False) False (PBool True))
     = Inr [Est 0, Est 1, Est 2, Flag False]
   \<and> map_option (\<lambda>d. nrows (fst d))
        (trained_on (fst (stack_models ex_env [ex_dt, ex_rf] [0, 1] None (PInt 2) (PInt 4) (PBool False) False (PBool True)) ! 2))
     = Some 2
   \<and> (\<exists>m st1 meta_X y k seed T ys.
         [Est 0, Est 1, Est 2, Flag False] = map Est [0, 1] @ [Est m, last [Est 0, Est 1, Est 2, Flag False]] \<and>
         fit_and_score_meta st1 m meta_X y k seed
           = (fst (stack_models ex_env [ex_dt, ex_rf] [0, 1] None (PInt 2) (PInt 4) (PBool False) False (PBool True)), Inr ()) \<and>
         trained_on (fst (stack_models ex_env [ex_dt, ex_rf] [0, 1] None (PInt 2) (PInt 4) (PBool False) False (PBool True)) ! m)
           = Some (T, ys) \<and>
         nrows T < nrows meta_X)"
proof -
  let ?R = "stack_models ex_env [ex_dt, ex_rf] [0, 1] None (PInt 2) (PInt 4) (PBool False) False (PBool True)"
  have s: "snd ?R = Inr [Est 0, Est 1, Est 2, Flag False]" by code_simp
  have t: "map_option (\<lambda>d. nrows (fst d)) (trained_on (fst ?R ! 2)) = Some 2" by code_simp
  have h: "?R = (fst ?R, Inr [Est 0, Est 1, Est 2, Flag False])"
    using s by (metis prod.collapse)
  have v: "\<forall>a. (None :: nat option) = Some a \<longrightarrow> a < length [ex_dt, ex_rf]" by simp
  from stack_models_meta_refit[OF h v] s t show ?thesis by blast
qed

subsection \<open>Inference on a container\<close>

lemma foldl_concat_frames:
  "foldl (\<lambda>df p. concat_cols df (DataFrame p)) t ps =
     \<lparr>nrows = foldl max (nrows t) (map length ps), cols = cols t @ map (Pair ''0'') ps\<rparr>"
  by (induction ps arbitrary: t) (simp_all add: concat_cols_def DataFrame_def)

lemma concat_frames_eq:
  "concat_frames ps = \<lparr>nrows = foldl max 0 (map length ps), cols = map (Pair ''0'') ps\<rparr>"
  by (simp add: concat_frames_def foldl_concat_frames empty_frame_def)

lemma number_names_length: "length (number_names tag c ns) = length ns"
  by (induction ns arbitrary: c) simp_all


lemma base_predictions_length:
  "base_predictions st items X = Inr ps \<Longrightarrow> length ps = length items"
  by (induction items arbitrary: ps) (auto split: sum.splits)

lemma set_columns_concat_frames:
  "length names = length ps \<Longrightarrow>
     set_columns (concat_frames ps) names =
       Inr \<lparr>nrows = foldl max 0 (map length ps), cols = zip names ps\<rparr>"
  by (simp add: set_columns_def concat_frames_eq comp_def)

lemma item_str_Est: "map (item_str st) (map Est bs) = map (\<lambda>r. repr_str (st ! r)) bs"
  by simp


lemma base_level_fixed_predict_length: "length (base_level_fixed_predict rs) = length rs"
  by (simp add: base_level_fixed_predict_def number_names_length)

lemma predict_multi_layer_eq:
  "predict_multi_layer st (Level base # map Level levels @ [Est m, fl]) X =
     (case base_predictions st (map Est base) X of
        Inl e \<Rightarrow> Inl e
      | Inr ps \<Rightarrow>
         (case inter_levels_predict st (map Level levels) 0
                 (concat_cols X \<lparr>nrows = foldl max 0 (map length ps),
                      cols = zip (base_level_fixed_predict (map (\<lambda>r. repr_str (st ! r)) base)) ps\<rparr>)
                 \<lparr>nrows = foldl max 0 (map length ps),
                      cols = zip (base_level_fixed_predict (map (\<lambda>r. repr_str (st ! r)) base)) ps\<rparr>
                 None
                 (concat_cols X \<lparr>nrows = foldl max 0 (map length ps),
                      cols = zip (base_level_fixed_predict (map (\<lambda>r. repr_str (st ! r)) base)) ps\<rparr>) of
            Inl e \<Rightarrow> Inl e
          | Inr r \<Rightarrow>
             try_except (predict_obj (st ! m) (fst r))
               (case snd r of None \<Rightarrow> Inl NameError | Some t \<Rightarrow> predict_obj (st ! m) t)))"
proof -
  define model where "model = Level base # map Level levels @ [Est m, fl]"
  have parts: "\<not> length model < 3" "last model = fl" "last (butlast model) = Est m"
    "hd model = Level base" "tl (butlast (butlast model)) = map Level levels"
    by (simp_all add: model_def butlast_append)
  have "predict_multi_layer st model X =
     (case base_predictions st (map Est base) X of
        Inl e \<Rightarrow> Inl e
      | Inr ps \<Rightarrow>
         (case inter_levels_predict st (map Level levels) 0
                 (concat_cols X \<lparr>nrows = foldl max 0 (map length ps),
                      cols = zip (base_level_fixed_predict (map (\<lambda>r. repr_str (st ! r)) base)) ps\<rparr>)
                 \<lparr>nrows = foldl max 0 (map length ps),
                      cols = zip (base_level_fixed_predict (map (\<lambda>r. repr_str (st ! r)) base)) ps\<rparr>
                 None
                 (concat_cols X \<lparr>nrows = foldl max 0 (map length ps),
                      cols = zip (base_level_fixed_predict (map (\<lambda>r. repr_str (st ! r)) base)) ps\<rparr>) of
            Inl e \<Rightarrow> Inl e
          | Inr r \<Rightarrow>
             try_except (predict_obj (st ! m) (fst r))
               (case snd r of None \<Rightarrow> Inl NameError | Some t \<Rightarrow> predict_obj (st ! m) t)))"
  proof (cases "base_predictions st (map Est base) X")
    case (Inl e)
    then show ?thesis
      by (simp add: predict_multi_layer_def parts Let_def)
  next
    case (Inr ps)
    then have "length ps = length base" by (auto dest: base_predictions_length)
    then have "length (base_level_fixed_predict (map (\<lambda>r. repr_str (st ! r)) base)) = length ps"
      by (simp add: base_level_fixed_predict_length)
    from set_columns_concat_frames[OF this] Inr show ?thesis
      by (auto simp: predict_multi_layer_def parts Let_def split: sum.splits option.splits)
  qed
  then show ?thesis by (simp only: model_def)
qed

lemma predict_obj_errors:
  "predict_obj obj X = Inl err \<Longrightarrow> err = AttributeError \<or> err = EstimatorError"
  by (auto simp: predict_obj_def split: option.splits)


lemma inter_levels_predict_last:
  "inter_levels_predict st (map Level ls) c bp bpn last_df comb = Inr (cdf, l') \<Longrightarrow>
     (if ls = [] then l' = last_df else l' \<noteq> None)"
proof (induction ls arbitrary: c last_df comb)
  case Nil
  then show ?case by simp
next
  case (Cons l ls)
  from Cons.prems obtain ip where
    rest: "inter_levels_predict st (map Level ls) (Suc c) bp bpn (Some ip) (concat_cols comb ip)
             = Inr (cdf, l')"
    by (auto split: sum.splits)
  from Cons.IH[OF rest] show ?case by (cases "ls = []") auto
qed

lemma predict_multi_layer_try:
  assumes "base_predictions st (map Est base) X = Inr ps"
    and "no_restack = \<lparr>nrows = foldl max 0 (map length ps),
                        cols = zip (base_level_fixed_predict (map (\<lambda>r. repr_str (st ! r)) base)) ps\<rparr>"
    and "inter_levels_predict st (map Level levels) 0 (concat_cols X no_restack) no_restack None
           (concat_cols X no_restack) = Inr (combined_df, inter_pred_df)"
  shows "predict_multi_layer st (Level base # map Level levels @ [Est m, fl]) X =
           try_except (predict_obj (st ! m) combined_df)
             (case inter_pred_df of None \<Rightarrow> Inl NameError | Some t \<Rightarrow> predict_obj (st ! m) t)"
  using assms by (simp add: predict_multi_layer_eq)




text \<open>
  C3, as amended. The claim: inference fails with \<open>ShapeMismatch\<close>, raised by a check of
  this module, whenever the column count is not the one the meta estimator was trained
  on. The module compares no column counts and has no such error: at the meta stage of
  the multi-layer branch only the meta estimator's \<^verbatim>\<open>predict\<close> decides. The branch builds
  \<^verbatim>\<open>combined_df\<close> and, when the container has an intermediate level, \<^verbatim>\<open>inter_pred_df\<close>.
  It returns exactly when the estimator accepts one of these tables, and what it returns
  is the estimator's prediction on one of them. When it fails, the estimator has raised
  on every table that exists, and the error is the estimator's own; in a container
  without intermediate level \<^verbatim>\<open>inter_pred_df\<close> does not exist and the error is that of
  the unbound variable.
\<close>

theorem predict_multi_layer_meta_stage:
  assumes "base_predictions st (map Est base) X = Inr ps"
    and "no_restack = \<lparr>nrows = foldl max 0 (map length ps),
                        cols = zip (base_level_fixed_predict (map (\<lambda>r. repr_str (st ! r)) base)) ps\<rparr>"
    and "inter_levels_predict st (map Level levels) 0 (concat_cols X no_restack) no_restack None
           (concat_cols X no_restack) = Inr (combined_df, inter_pred_df)"
  shows "((inter_pred_df = None) = (levels = []))
         \<and> ((\<exists>p. predict_multi_layer st (Level base # map Level levels @ [Est m, fl]) X = Inr p) =
              ((\<exists>p. predict_obj (st ! m) combined_df = Inr p) \<or>
               (\<exists>t p. inter_pred_df = Some t \<and> predict_obj (st ! m) t = Inr p)))
         \<and> (\<forall>p. predict_multi_layer st (Level base # map Level levels @ [Est m, fl]) X = Inr p \<longrightarrow>
                predict_obj (st ! m) combined_df = Inr p \<or>
                (\<exists>t. inter_pred_df = Some t \<and> predict_obj (st ! m) t = Inr p))
         \<and> (\<forall>err. predict_multi_layer st (Level base # map Level levels @ [Est m, fl]) X = Inl err \<longrightarrow>
                (\<exists>e. predict_obj (st ! m) combined_df = Inl e) \<and>
                (case inter_pred_df of
                   None \<Rightarrow> err = NameError
                 | Some t \<Rightarrow> predict_obj (st ! m) t = Inl err \<and>
                             (err = AttributeError \<or> err = EstimatorError)))"
proof -
  let ?R = "predict_multi_layer st (Level base # map Level levels @ [Est m, fl]) X"
  have eq: "?R = try_except (predict_obj (st ! m) combined_df)
             (case inter_pred_df of None \<Rightarrow> Inl NameError | Some t \<Rightarrow> predict_obj (st ! m) t)"
    using assms by (rule predict_multi_layer_try)
  have lv: "(inter_pred_df = None) = (levels = [])"
    using inter_levels_predict_last[OF assms(3)] by (cases "levels = []") auto
  have ok: "(\<exists>p. ?R = Inr p) =
              ((\<exists>p. predict_obj (st ! m) combined_df = Inr p) \<or>
               (\<exists>t p. inter_pred_df = Some t \<and> predict_obj (st ! m) t = Inr p))"
    unfolding eq by (auto simp: try_except_def split: sum.splits option.splits)
  have val: "\<forall>p. ?R = Inr p \<longrightarrow>
                predict_obj (st ! m) combined_df = Inr p \<or>
                (\<exists>t. inter_pred_df = Some t \<and> predict_obj (st ! m) t = Inr p)"
    unfolding eq by (auto simp: try_except_def split: sum.splits option.splits)
  have err: "\<forall>err. ?R = Inl err \<longrightarrow>
                (\<exists>e. predict_obj (st ! m) combined_df = Inl e) \<and>
                (case inter_pred_df of
                   None \<Rightarrow> err = NameError
                 | Some t \<Rightarrow> predict_obj (st ! m) t = Inl err \<and>
                             (err = AttributeError \<or> err = EstimatorError))"
    unfolding eq
    by (auto simp: try_except_def split: sum.splits option.splits dest: predict_obj_errors)
  from lv ok val err show ?thesis by (intro conjI)
qed

theorem predict_multi_layer_meta_stage_witness:
  "predict_multi_layer (ex_multi_store ex_ridge) [Level [0, 1], Level [2], Est 3, Flag False] ex_X = Inr [1, 1, 1, 1]
   \<and> predict_obj (ex_multi_store ex_ridge ! 3)
        \<lparr>nrows = 4, cols = [(''f1'', [1, 2, 3, 4]), (''f2'', [5, 6, 7, 8]),
            (''CatBoostRegressor_BaseLevel_0'', [2, 2, 2, 2]),
            (''RandomForestRegressor_BaseLevel_1'', [2, 2, 2, 2]),
            (''LinearRegression_InterLevel_0_0'', [2, 2, 2, 2])]\<rparr> = Inl EstimatorError
   \<and> predict_multi_layer ex_base_store [Level [0], Est 1, Flag False] ex_X = Inl NameError"
proof -
  let ?st = "ex_multi_store ex_ridge"
  let ?nr = "\<lparr>nrows = 4, cols = [(''CatBoostRegressor_BaseLevel_0'', [2, 2, 2, 2 :: real]),
                                  (''RandomForestRegressor_BaseLevel_1'', [2, 2, 2, 2])]\<rparr>"
  let ?comb = "\<lparr>nrows = 4, cols = [(''f1'', [1, 2, 3, 4 :: real]), (''f2'', [5, 6, 7, 8]),
            (''CatBoostRegressor_BaseLevel_0'', [2, 2, 2, 2]),
            (''RandomForestRegressor_BaseLevel_1'', [2, 2, 2, 2]),
            (''LinearRegression_InterLevel_0_0'', [2, 2, 2, 2])]\<rparr>"
  let ?last = "\<lparr>nrows = 4, cols = [(''LinearRegression_InterLevel_0_0'', [2, 2, 2, 2 :: real])]\<rparr>"
  let ?R = "predict_multi_layer ?st [Level [0, 1], Level [2], Est 3, Flag False] ex_X"
  have b: "base_predictions ?st (map Est [0, 1]) ex_X = Inr [[2, 2, 2, 2], [2, 2, 2, 2]]"
    by code_simp
  have n: "?nr = \<lparr>nrows = foldl max 0 (map length [[2, 2, 2, 2 :: real], [2, 2, 2, 2]]),
                  cols = zip (base_level_fixed_predict (map (\<lambda>r. repr_str (?st ! r)) [0, 1]))
                             [[2, 2, 2, 2], [2, 2, 2, 2]]\<rparr>"
    by code_simp
  have i: "inter_levels_predict ?st (map Level [[2]]) 0 (concat_cols ex_X ?nr) ?nr None
             (concat_cols ex_X ?nr) = Inr (?comb, Some ?last)"
    by code_simp
  have c: "predict_obj (?st ! 3) ?comb = Inl EstimatorError" by code_simp
  have l: "predict_obj (?st ! 3) ?last = Inr [1, 1, 1, 1]" by code_simp
  note t = predict_multi_layer_meta_stage[OF b n i, of 3 "Flag False"]
  from t l have "\<exists>p. ?R = Inr p" by simp
  then obtain p where p: "?R = Inr p" ..
  with t c l have "p = [1, 1, 1, 1]" by simp
  with p have 1: "?R = Inr [1, 1, 1, 1]" by simp
  let ?sb = "ex_base_store"
  let ?nb = "\<lparr>nrows = 4, cols = [(''RandomForestRegressor_BaseLevel_0'', [2, 2, 2, 2 :: real])]\<rparr>"
  let ?Rb = "predict_multi_layer ?sb [Level [0], Est 1, Flag False] ex_X"
  have bb: "base_predictions ?sb (map Est [0]) ex_X = Inr [[2, 2, 2, 2]]" by code_simp
  have nb: "?nb = \<lparr>nrows = foldl max 0 (map length [[2, 2, 2, 2 :: real]]),
                  cols = zip (base_level_fixed_predict (map (\<lambda>r. repr_str (?sb ! r)) [0]))
                             [[2, 2, 2, 2]]\<rparr>"
    by code_simp
  have ib: "inter_levels_predict ?sb (map Level []) 0 (concat_cols ex_X ?nb) ?nb None
             (concat_cols ex_X ?nb) = Inr (concat_cols ex_X ?nb, None)"
    by simp
  have cb: "predict_obj (?sb ! 1) (concat_cols ex_X ?nb) = Inl EstimatorError" by code_simp
  note tb = predict_multi_layer_meta_stage[OF bb nb ib, of 1 "Flag False"]
  from tb cb have "\<not> (\<exists>p. ?Rb = Inr p)" by simp
  then obtain err where e: "?Rb = Inl err" by (cases ?Rb) auto
  with tb have "err = NameError" by simp
  with e have 2: "?Rb = Inl NameError" by simp
  from 1 c 2 show ?thesis by (intro conjI)
qed

text \<open>
  C3, the claim as stated fails. A meta estimator fitted on one column that accepts any
  table is given the five columns of \<^verbatim>\<open>combined_df\<close> and its answer is returned: no
  failure although the column counts differ. A strict meta estimator fitted on one
  column, in a container whose last level was given a second estimator, rejects both
  tables: the call fails with the estimator's own error, raised by no check of the
  module. On the container that \<^verbatim>\<open>create_stacknet([[rf]], meta_model = ridge)\<close> returns,
  the meta estimator, fitted on one column, rejects \<^verbatim>\<open>combined_df\<close> and the call fails
  with the error of the unbound \<^verbatim>\<open>inter_pred_df\<close>.
\<close>

theorem predict_model_no_shape_check:
  "snd (create_stacknet ex_env [ex_cb, ex_rf, ex_lr, ex_dummy] [[0, 1], [2]] (Some 3)
          (PInt 2) (PInt 4) (PBool False) False (PBool True))
     = Inr [Level [0, 1], Level [2], Est 3, Flag False]
   \<and> map_option (\<lambda>d. length (cols (fst d))) (trained_on (ex_multi_store ex_dummy ! 3)) = Some 1
   \<and> predict_model ex_env (ex_multi_store ex_dummy) (PList [Level [0, 1], Level [2], Est 3, Flag False]) None 4 =
       Inr \<lparr>nrows = 4, cols = [(''f1'', [1, 2, 3, 4]), (''f2'', [5, 6, 7, 8]),
                                 (''medv'', [10, 20, 30, 40]), (''Label'', [5, 5, 5, 5])]\<rparr>
   \<and> map_option (\<lambda>d. length (cols (fst d))) (trained_on (ex_multi_store ex_ridge ! 3)) = Some 1
   \<and> predict_model ex_env (ex_multi_store ex_ridge) (PList [Level [0, 1], Level [2, 2], Est 3, Flag False]) None 4 =
       Inl EstimatorError
   \<and> snd (create_stacknet ex_env [ex_rf, ex_ridge] [[0]] (Some 1)
          (PInt 2) (PInt 4) (PBool False) False (PBool True))
     = Inr [Level [0], Est 1, Flag False]
   \<and> map_option (\<lambda>d. length (cols (fst d))) (trained_on (ex_base_store ! 1)) = Some 1
   \<and> predict_model ex_env ex_base_store (PList [Level [0], Est 1, Flag False]) None 4 = Inl NameError"
  by code_simp

subsection \<open>The errors a training call can end in\<close>

lemma KFold_split_Inl:
  "KFold_split K s N = Inl e \<Longrightarrow> e = InvalidFoldCount \<and> (K < 2 \<or> int N < K)"
  by (auto simp: KFold_split_def split: if_splits)

lemma iloc_series_Inl: "iloc_series y idx = Inl e \<Longrightarrow> e = IndexError"
  by (auto simp: iloc_series_def split: if_splits)

lemma fit_obj_Inl: "fit_obj obj X y = Inl e \<Longrightarrow> e = AttributeError \<or> e = EstimatorError"
  by (auto simp: fit_obj_def split: option.splits if_splits)

lemma oof_folds_Inl:
  "oof_folds obj X y folds = Inl e \<Longrightarrow> e = IndexError \<or> e = AttributeError \<or> e = EstimatorError"
proof (induction folds arbitrary: e)
  case Nil
  then show ?case by simp
next
  case (Cons f folds)
  then show ?case
    by (auto split: sum.splits dest: iloc_series_Inl fit_obj_Inl predict_obj_errors)
qed

lemma cross_val_predict_Inl:
  "cross_val_predict obj X y k = Inl e \<Longrightarrow>
     e = IndexError \<or> e = AttributeError \<or> e = EstimatorError \<or>
     (e = InvalidFoldCount \<and> (k < 2 \<or> int (nrows X) < k))"
  by (auto simp: cross_val_predict_def split: sum.splits dest: KFold_split_Inl oof_folds_Inl)

lemma base_loop_Inl:
  "base_loop st l X y k bp = (st', Inl e) \<Longrightarrow>
     e = IndexError \<or> e = AttributeError \<or> e = EstimatorError \<or>
     (e = InvalidFoldCount \<and> (k < 2 \<or> int (nrows X) < k))"
proof (induction l arbitrary: st bp)
  case Nil
  then show ?case by simp
next
  case (Cons m l)
  show ?case
  proof (cases "fit st m X y")
    case (Pair st1 res)
    show ?thesis
    proof (cases res)
      case (Inl e1)
      with Pair Cons.prems show ?thesis by (auto dest: fit_Inl)
    next
      case (Inr r)
      show ?thesis
      proof (cases "cross_val_predict (st1 ! m) X y k")
        case (Inl e1)
        with Pair Inr Cons.prems have "e = e1" by simp
        with Inl show ?thesis by (auto dest: cross_val_predict_Inl)
      next
        case (Inr a)
        with Pair \<open>res = Inr r\<close> Cons.prems
        have "base_loop st1 l X y k (concat_cols bp (DataFrame a)) = (st', Inl e)" by simp
        then show ?thesis by (rule Cons.IH)
      qed
    qed
  qed
qed

lemma assemble_meta_table_Inl:
  "assemble_meta_table X y names rs bp = Inl e \<Longrightarrow> e = LengthMismatch \<or> e = IndexError"
  by (auto simp: assemble_meta_table_def set_columns_def Let_def split: sum.splits if_splits)

lemma score_metrics_Some: "score_metrics ytest pred = Some e \<Longrightarrow> e = ValueError"
  by (auto simp: score_metrics_def split: if_splits)

lemma meta_cv_loop_Inl:
  "meta_cv_loop st m X y folds = (st', Inl e) \<Longrightarrow>
     e = IndexError \<or> e = AttributeError \<or> e = EstimatorError \<or> e = ValueError"
proof (induction folds arbitrary: st)
  case Nil
  then show ?case by simp
next
  case (Cons f folds)
  show ?case
  proof (cases "iloc_series y (fst f)")
    case (Inl e1)
    with Cons.prems show ?thesis by (auto dest: iloc_series_Inl)
  next
    case (Inr ytrain)
    show ?thesis
    proof (cases "iloc_series y (snd f)")
      case t: (Inl e1)
      with Inr Cons.prems show ?thesis by (auto dest: iloc_series_Inl)
    next
      case t: (Inr ytest)
      show ?thesis
      proof (cases "fit st m (iloc_rows X (fst f)) ytrain")
        case (Pair st1 res)
        show ?thesis
        proof (cases res)
          case (Inl e1)
          with Pair Inr t Cons.prems show ?thesis by (auto dest: fit_Inl)
        next
          case r: (Inr r)
          show ?thesis
          proof (cases "predict_obj (st1 ! m) (iloc_rows X (snd f))")
            case (Inl e1)
            with Pair Inr t r Cons.prems have "e = e1" by simp
            with Inl show ?thesis by (auto dest: predict_obj_errors)
          next
            case p: (Inr p)
            show ?thesis
            proof (cases "score_metrics (snd ytest) p")
              case (Some e1)
              with Pair Inr t r p Cons.prems have "e = e1" by simp
              with Some show ?thesis by (auto dest: score_metrics_Some)
            next
              case None
              with Pair Inr t r p Cons.prems
              have "meta_cv_loop st1 m X y folds = (st', Inl e)" by simp
              then show ?thesis by (rule Cons.IH)
            qed
          qed
        qed
      qed
    qed
  qed
qed

lemma fit_and_score_meta_Inl:
  "fit_and_score_meta st m X y k seed = (st', Inl e) \<Longrightarrow>
     e = IndexError \<or> e = AttributeError \<or> e = EstimatorError \<or> e = ValueError \<or>
     (e = InvalidFoldCount \<and> (k < 2 \<or> int (nrows X) < k))"
  by (auto simp: fit_and_score_meta_def split: sum.splits prod.splits
           dest: fit_Inl KFold_split_Inl meta_cv_loop_Inl)


lemma training_data_Inl: "training_data e fin = Inl err \<Longrightarrow> err = NameError"
  by (auto simp: training_data_def split: option.splits)

lemma stack_models_body_Inl:
  assumes "stack_models_body e st l mm k rs fin = (st', Inl err)"
  shows "err = NameError \<or> err = IndexError \<or> err = AttributeError \<or> err = EstimatorError \<or>
         err = LengthMismatch \<or> err = InvalidFoldCount \<or> err = TraitError \<or> err = ValueError"
proof (cases "progress_bar (int (length l) + k + 4)")
  case (Some e1)
  with assms show ?thesis
    by (auto simp: stack_models_body_def progress_bar_def split: if_splits)
next
  case pb: None
  obtain st0 m where dm: "default_meta e st mm = (st0, m)" by (cases "default_meta e st mm")
  show ?thesis
  proof (cases "training_data e fin")
    case (Inl e1)
    with assms pb dm show ?thesis by (auto simp: stack_models_body_def dest: training_data_Inl)
  next
    case (Inr d)
    obtain X y seed where d: "d = (X, y, seed)" by (cases d)
    obtain st1 res1 where bl: "base_loop st0 l X y k (DataFrame_series y) = (st1, res1)"
      by (cases "base_loop st0 l X y k (DataFrame_series y)")
    show ?thesis
    proof (cases res1)
      case (Inl e1)
      with assms pb dm Inr d bl have "err = e1" by (simp add: stack_models_body_def)
      with bl Inl show ?thesis by (auto dest: base_loop_Inl)
    next
      case bp: (Inr bp)
      show ?thesis
      proof (cases "assemble_meta_table X y (model_names_fixed (map (\<lambda>r. repr_str (st0 ! r)) l)) rs bp")
        case (Inl e1)
        with assms pb dm Inr d bl bp have "err = e1" by (simp add: stack_models_body_def)
        with Inl show ?thesis by (auto dest: assemble_meta_table_Inl)
      next
        case mx: (Inr meta_X)
        obtain st2 res2 where fs: "fit_and_score_meta st1 m meta_X y k seed = (st2, res2)"
          by (cases "fit_and_score_meta st1 m meta_X y k seed")
        with assms pb dm Inr d bl bp mx have "res2 = Inl err"
          by (cases res2) (simp_all add: stack_models_body_def)
        with fs show ?thesis by (auto dest: fit_and_score_meta_Inl)
      qed
    qed
  qed
qed

lemma check_params_not_value_error:
  "check_params f r rs v \<noteq> Some (SysExit value_error_msg)"
  by (simp add: check_params_def value_error_msg_def)

lemma stack_models_value_error:
  "(snd (stack_models e st l mm f r rs fin v) = Inl (SysExit value_error_msg)) =
     (\<not> list_all (\<lambda>i. type_ok (st ! i)) l \<or> \<not> check_meta st mm)"
proof (cases "\<not> list_all (\<lambda>i. type_ok (st ! i)) l \<or> \<not> check_meta st mm")
  case True
  then have "stack_models_checks st l mm f r rs v = Some (SysExit value_error_msg)"
    by (auto simp: stack_models_checks_def)
  with True show ?thesis by (simp add: stack_models_def)
next
  case False
  then have ch: "stack_models_checks st l mm f r rs v = check_params f r rs v"
    by (auto simp: stack_models_checks_def)
  have "snd (stack_models e st l mm f r rs fin v) \<noteq> Inl (SysExit value_error_msg)"
  proof (cases "check_params f r rs v")
    case (Some err)
    with ch check_params_not_value_error[of f r rs v] show ?thesis
      by (simp add: stack_models_def)
  next
    case None
    show ?thesis
    proof
      assume a: "snd (stack_models e st l mm f r rs fin v) = Inl (SysExit value_error_msg)"
      show False
      proof (cases "\<exists>k b. f = PInt k \<and> rs = PBool b")
        case True
        then obtain k b where kb: "f = PInt k" "rs = PBool b" by blast
        obtain st' res where b: "stack_models_body e st l mm k b fin = (st', res)"
          by (cases "stack_models_body e st l mm k b fin")
        with a ch None kb have "res = Inl (SysExit value_error_msg)" by (simp add: stack_models_def)
        with b show False by (auto dest: stack_models_body_Inl)
      next
        case False
        with a ch None show False
          by (auto simp: stack_models_def split: pyarg.splits)
      qed
    qed
  qed
  with False show ?thesis by simp
qed

lemma stack_models_value_error_store:
  "snd (stack_models e st l mm f r rs fin v) = Inl (SysExit value_error_msg) \<Longrightarrow>
     fst (stack_models e st l mm f r rs fin v) = st"
proof -
  assume "snd (stack_models e st l mm f r rs fin v) = Inl (SysExit value_error_msg)"
  then have "\<not> list_all (\<lambda>i. type_ok (st ! i)) l \<or> \<not> check_meta st mm"
    by (simp add: stack_models_value_error)
  then have "stack_models_checks st l mm f r rs v = Some (SysExit value_error_msg)"
    by (auto simp: stack_models_checks_def)
  then show ?thesis by (simp add: stack_models_def)
qed


lemma stacknet_base_loop_Inl:
  "stacknet_base_loop st l X y k n c bp = (st', Inl e) \<Longrightarrow>
     e = IndexError \<or> e = AttributeError \<or> e = EstimatorError \<or> e = InvalidFoldCount"
proof (induction l arbitrary: st c bp)
  case Nil
  then show ?case by simp
next
  case (Cons m l)
  from Cons.prems show ?case
    by (auto split: sum.splits prod.splits if_splits
             dest: fit_Inl cross_val_predict_Inl Cons.IH)
qed

lemma inter_inner_loop_Inl:
  "inter_inner_loop st l B y k n c j D = (st', Inl e) \<Longrightarrow>
     e = IndexError \<or> e = AttributeError \<or> e = EstimatorError \<or> e = InvalidFoldCount"
proof (induction l arbitrary: st j D)
  case Nil
  then show ?case by simp
next
  case (Cons m l)
  from Cons.prems show ?case
    by (auto split: sum.splits prod.splits if_splits
             dest: fit_Inl cross_val_predict_Inl Cons.IH)
qed

lemma inter_levels_loop_Inl:
  "inter_levels_loop st ls B y k rs n c = (st', Inl e) \<Longrightarrow>
     e = IndexError \<or> e = AttributeError \<or> e = EstimatorError \<or> e = InvalidFoldCount"
proof (induction ls arbitrary: st B c)
  case Nil
  then show ?case by simp
next
  case (Cons lv ls)
  obtain st1 res where inner: "inter_inner_loop st lv B y k n c 0 empty_frame = (st1, res)"
    by (cases "inter_inner_loop st lv B y k n c 0 empty_frame")
  show ?case
  proof (cases res)
    case (Inl e1)
    with inner Cons.prems have "e = e1" by simp
    with inner Inl show ?thesis by (auto dest: inter_inner_loop_Inl)
  next
    case (Inr D)
    with inner Cons.prems obtain B' where
      "inter_levels_loop st1 ls B' y k rs n (Suc c) = (st', Inl e)"
      by (auto simp: Let_def)
    then show ?thesis by (rule Cons.IH)
  qed
qed

lemma stacknet_base_table_Inl:
  "stacknet_base_table st ll X y k rs = (st', Inl e) \<Longrightarrow>
     e = IndexError \<or> e = AttributeError \<or> e = EstimatorError \<or> e = InvalidFoldCount \<or>
     e = LengthMismatch"
  by (auto simp: stacknet_base_table_def Let_def set_columns_def
           split: sum.splits prod.splits if_splits dest: stacknet_base_loop_Inl)

lemma create_stacknet_body_Inl:
  assumes "create_stacknet_body e st ll mm k rs fin = (st', Inl err)"
  shows "err = NameError \<or> err = IndexError \<or> err = AttributeError \<or> err = EstimatorError \<or>
         err = LengthMismatch \<or> err = InvalidFoldCount \<or> err = TraitError \<or> err = ValueError"
proof (cases "progress_bar (int (length ll) + k + 4)")
  case (Some e1)
  with assms show ?thesis
    by (auto simp: create_stacknet_body_def progress_bar_def split: if_splits)
next
  case None
  with assms show ?thesis
    by (auto simp: create_stacknet_body_def
             split: sum.splits prod.splits if_splits
             dest: training_data_Inl stacknet_base_table_Inl inter_levels_loop_Inl
                   fit_and_score_meta_Inl)
qed

lemma create_stacknet_value_error:
  "(snd (create_stacknet e st ll mm f r rs fin v) = Inl (SysExit value_error_msg)) =
     (\<not> list_all (\<lambda>i. list_all (\<lambda>j. type_ok (st ! j)) i) ll \<or> \<not> check_meta st mm)"
proof (cases "\<not> list_all (\<lambda>i. list_all (\<lambda>j. type_ok (st ! j)) i) ll \<or> \<not> check_meta st mm")
  case True
  then have "create_stacknet_checks st ll mm f r rs v = Some (SysExit value_error_msg)"
    by (auto simp: create_stacknet_checks_def)
  with True show ?thesis by (simp add: create_stacknet_def)
next
  case False
  then have ch: "create_stacknet_checks st ll mm f r rs v = check_params f r rs v"
    by (auto simp: create_stacknet_checks_def)
  have "snd (create_stacknet e st ll mm f r rs fin v) \<noteq> Inl (SysExit value_error_msg)"
  proof (cases "check_params f r rs v")
    case (Some err)
    with ch check_params_not_value_error[of f r rs v] show ?thesis
      by (simp add: create_stacknet_def)
  next
    case None
    show ?thesis
    proof
      assume a: "snd (create_stacknet e st ll mm f r rs fin v) = Inl (SysExit value_error_msg)"
      show False
      proof (cases "\<exists>k b. f = PInt k \<and> rs = PBool b")
        case True
        then obtain k b where kb: "f = PInt k" "rs = PBool b" by blast
        obtain st' res where b: "create_stacknet_body e st ll mm k b fin = (st', res)"
          by (cases "create_stacknet_body e st ll mm k b fin")
        with a ch None kb have "res = Inl (SysExit value_error_msg)" by (simp add: create_stacknet_def)
        with b show False by (auto dest: create_stacknet_body_Inl)
      next
        case False
        with a ch None show False
          by (auto simp: create_stacknet_def split: pyarg.splits)
      qed
    qed
  qed
  with False show ?thesis by simp
qed

lemma create_stacknet_value_error_store:
  "snd (create_stacknet e st ll mm f r rs fin v) = Inl (SysExit value_error_msg) \<Longrightarrow>
     fst (create_stacknet e st ll mm f r rs fin v) = st"
proof -
  assume "snd (create_stacknet e st ll mm f r rs fin v) = Inl (SysExit value_error_msg)"
  then have "\<not> list_all (\<lambda>i. list_all (\<lambda>j. type_ok (st ! j)) i) ll \<or> \<not> check_meta st mm"
    by (simp add: create_stacknet_value_error)
  then have "create_stacknet_checks st ll mm f r rs v = Some (SysExit value_error_msg)"
    by (auto simp: create_stacknet_checks_def)
  then show ?thesis by (simp add: create_stacknet_def)
qed

text \<open>
  C9, as amended. The claim: the two functions fail at once with \<open>UnsupportedEstimator\<close>
  exactly when a supplied object lacks \<^verbatim>\<open>fit\<close> or \<^verbatim>\<open>predict\<close>. What the functions check
  is the name of the object's type: they end at once in the \<^verbatim>\<open>sys.exit\<close> with the Value
  Error message, before anything is fitted, exactly when the type name of some supplied
  object (an estimator of the list, or the meta model) contains neither \<^verbatim>\<open>sklearn\<close> nor
  \<^verbatim>\<open>CatBoostRegressor\<close>. No later step of either function ends in that exit.
\<close>

theorem type_name_check:
  "(snd (stack_models e st l mm f r rs fin v) = Inl (SysExit value_error_msg)) =
     (\<not> list_all (\<lambda>i. type_ok (st ! i)) l \<or> \<not> check_meta st mm)
   \<and> (snd (stack_models e st l mm f r rs fin v) = Inl (SysExit value_error_msg) \<longrightarrow>
        fst (stack_models e st l mm f r rs fin v) = st)
   \<and> (snd (create_stacknet e st ll mm f r rs fin v) = Inl (SysExit value_error_msg)) =
     (\<not> list_all (\<lambda>i. list_all (\<lambda>j. type_ok (st ! j)) i) ll \<or> \<not> check_meta st mm)
   \<and> (snd (create_stacknet e st ll mm f r rs fin v) = Inl (SysExit value_error_msg) \<longrightarrow>
        fst (create_stacknet e st ll mm f r rs fin v) = st)"
proof (intro conjI impI)
  show "(snd (stack_models e st l mm f r rs fin v) = Inl (SysExit value_error_msg)) =
     (\<not> list_all (\<lambda>i. type_ok (st ! i)) l \<or> \<not> check_meta st mm)"
    by (rule stack_models_value_error)
  show "(snd (create_stacknet e st ll mm f r rs fin v) = Inl (SysExit value_error_msg)) =
     (\<not> list_all (\<lambda>i. list_all (\<lambda>j. type_ok (st ! j)) i) ll \<or> \<not> check_meta st mm)"
    by (rule create_stacknet_value_error)
next
  assume "snd (stack_models e st l mm f r rs fin v) = Inl (SysExit value_error_msg)"
  then show "fst (stack_models e st l mm f r rs fin v) = st"
    by (rule stack_models_value_error_store)
next
  assume "snd (create_stacknet e st ll mm f r rs fin v) = Inl (SysExit value_error_msg)"
  then show "fst (create_stacknet e st ll mm f r rs fin v) = st"
    by (rule create_stacknet_value_error_store)
qed

theorem type_name_check_witness:
  "snd (stack_models ex_env [ex_dt, ex_custom] [0, 1] None (PInt 2) (PInt 4) (PBool False) False (PBool True))
     = Inl (SysExit value_error_msg)
   \<and> map trained_on (fst (stack_models ex_env [ex_dt, ex_custom] [0, 1] None (PInt 2) (PInt 4) (PBool False) False (PBool True)))
     = map trained_on [ex_dt, ex_custom]
   \<and> snd (create_stacknet ex_env [ex_dt, ex_custom] [[0], [1]] None (PInt 2) (PInt 4) (PBool False) False (PBool True))
     = Inl (SysExit value_error_msg)
   \<and> snd (stack_models ex_env [ex_dt, ex_rf] [0, 1] None (PInt 2) (PInt 4) (PBool False) False (PBool True))
     \<noteq> Inl (SysExit value_error_msg)"
proof -
  have a: "\<not> list_all (\<lambda>i. type_ok ([ex_dt, ex_custom] ! i)) [0, 1]" by code_simp
  have b: "\<not> list_all (\<lambda>i. list_all (\<lambda>j. type_ok ([ex_dt, ex_custom] ! j)) i) [[0], [1]]" by code_simp
  have c: "list_all (\<lambda>i. type_ok ([ex_dt, ex_rf] ! i)) [0, 1]" by code_simp
  have d: "check_meta [ex_dt, ex_rf] None" by (simp add: check_meta_def)
  note t1 = type_name_check[of ex_env "[ex_dt, ex_custom]" "[0, 1]" None "PInt 2" "PInt 4" "PBool False" False "PBool True" "[[0], [1]]"]
  note t2 = type_name_check[of ex_env "[ex_dt, ex_rf]" "[0, 1]" None "PInt 2" "PInt 4" "PBool False" False "PBool True" "[]"]
  from t1 a b have 1: "snd (stack_models ex_env [ex_dt, ex_custom] [0, 1] None (PInt 2) (PInt 4) (PBool False) False (PBool True))
     = Inl (SysExit value_error_msg)"
    and 3: "snd (create_stacknet ex_env [ex_dt, ex_custom] [[0], [1]] None (PInt 2) (PInt 4) (PBool False) False (PBool True))
     = Inl (SysExit value_error_msg)" by blast+
  from t1 1 have 2: "fst (stack_models ex_env [ex_dt, ex_custom] [0, 1] None (PInt 2) (PInt 4) (PBool False) False (PBool True))
     = [ex_dt, ex_custom]" by blast
  from t2 c d have 4: "snd (stack_models ex_env [ex_dt, ex_rf] [0, 1] None (PInt 2) (PInt 4) (PBool False) False (PBool True))
     \<noteq> Inl (SysExit value_error_msg)" by blast
  from 1 2 3 4 show ?thesis by simp
qed

text \<open>
  C9, the claim as stated fails in both directions. An estimator of the caller's own
  that has \<^verbatim>\<open>fit\<close> and \<^verbatim>\<open>predict\<close> is rejected, for its type name. A scaler of the library,
  which has no \<^verbatim>\<open>predict\<close>, passes every check; the call fails only later, with the
  \<^verbatim>\<open>AttributeError\<close> of the missing method.
\<close>

theorem capability_not_examined:
  "(case fit_impl ex_custom of None \<Rightarrow> False | Some f \<Rightarrow> True)
   \<and> (case predict_impl ex_custom of None \<Rightarrow> False | Some f \<Rightarrow> True)
   \<and> snd (stack_models ex_env [ex_custom] [0] None (PInt 2) (PInt 4) (PBool False) False (PBool True))
     = Inl (SysExit value_error_msg)
   \<and> snd (create_stacknet ex_env [ex_custom] [[0]] None (PInt 2) (PInt 4) (PBool False) False (PBool True))
     = Inl (SysExit value_error_msg)
   \<and> (case predict_impl ex_scaler of None \<Rightarrow> True | Some f \<Rightarrow> False)
   \<and> stack_models_checks [ex_scaler] [0] None (PInt 2) (PInt 4) (PBool False) (PBool True) = None
   \<and> snd (stack_models ex_env [ex_scaler] [0] None (PInt 2) (PInt 4) (PBool False) False (PBool True))
     = Inl AttributeError
   \<and> create_stacknet_checks [ex_scaler] [[0]] None (PInt 2) (PInt 4) (PBool False) (PBool True) = None"
  by code_simp

subsection \<open>What training leaves in the store\<close>







lemma default_meta_cases:
  "default_meta e st mm = (st0, m) \<Longrightarrow>
     m = (case mm of None \<Rightarrow> length st | Some a \<Rightarrow> a) \<and>
     (\<forall>a < length st. st0 ! a = st ! a) \<and> length st \<le> length st0"
  by (auto simp: default_meta_def nth_append split: option.splits)


lemma create_stacknet_Inr:
  assumes "create_stacknet e st ll mm f r rs fin v = (st', Inr c)"
  shows "\<exists>k b. f = PInt k \<and> rs = PBool b \<and> create_stacknet_checks st ll mm f r rs v = None \<and>
               create_stacknet_body e st ll mm k b fin = (st', Inr c)"
  using assms
  by (auto simp: create_stacknet_def split: option.splits pyarg.splits)

lemma create_stacknet_body_Inr:
  assumes "create_stacknet_body e st ll mm k rs fin = (st', Inr c)"
  shows "\<exists>st0 m X y seed st1 B st2 T.
           ll \<noteq> [] \<and>
           training_data e fin = Inr (X, y, seed) \<and>
           default_meta e st mm = (st0, m) \<and>
           stacknet_base_table st0 ll X y k rs = (st1, Inr B) \<and>
           inter_levels_loop st1 (tl ll) B y k rs (2 * length (concat (tl ll))) 0 = (st2, Inr T) \<and>
           fit_and_score_meta st2 m T y k seed = (st', Inr ()) \<and>
           c = map Level ll @ [Est m, Flag rs]"
  using assms
  by (auto simp: create_stacknet_body_def split: prod.splits sum.splits if_splits option.splits)





subsection \<open>The fold count\<close>

lemma base_loop_nrows:
  "base_loop st l X y k bp = (st', Inr bp') \<Longrightarrow> nrows bp \<le> nrows bp'"
proof (induction l arbitrary: st bp)
  case Nil
  then show ?case by simp
next
  case (Cons m l)
  from Cons.prems obtain st1 r arr where
    rest: "base_loop st1 l X y k (concat_cols bp (DataFrame arr)) = (st', Inr bp')"
    by (auto split: sum.splits prod.splits)
  from Cons.IH[OF rest] show ?case by (simp add: concat_cols_def)
qed

lemma assemble_meta_table_nrows:
  "assemble_meta_table X y names rs bp = Inr meta_X \<Longrightarrow> nrows bp \<le> nrows meta_X"
  by (auto simp: assemble_meta_table_def set_columns_def drop_label_def concat_cols_def Let_def
           split: sum.splits if_splits)

lemma stack_models_body_fold_ok:
  assumes td: "training_data e fin = Inr (X, y, seed)"
    and k: "2 \<le> k" "k \<le> int (nrows X)" and xy: "nrows X \<le> length (snd y)"
  shows "snd (stack_models_body e st l mm k rs fin) \<noteq> Inl InvalidFoldCount"
proof
  assume a0: "snd (stack_models_body e st l mm k rs fin) = Inl InvalidFoldCount"
  have pb: "progress_bar (int (length l) + k + 4) = None"
    using k by (simp add: progress_bar_def)
  note a = a0 pb
  obtain st0 m where dm: "default_meta e st mm = (st0, m)" by (cases "default_meta e st mm")
  obtain st1 res1 where bl: "base_loop st0 l X y k (DataFrame_series y) = (st1, res1)"
    by (cases "base_loop st0 l X y k (DataFrame_series y)")
  show False
  proof (cases res1)
    case (Inl e1)
    with a dm td bl have "e1 = InvalidFoldCount" by (simp add: stack_models_body_def)
    with bl Inl k show False by (auto dest: base_loop_Inl)
  next
    case bp: (Inr bp)
    have n1: "length (snd y) \<le> nrows bp"
      using base_loop_nrows[of st0 l X y k "DataFrame_series y" st1 bp] bl bp
      by (simp add: DataFrame_series_def)
    show False
    proof (cases "assemble_meta_table X y (model_names_fixed (map (\<lambda>r. repr_str (st0 ! r)) l)) rs bp")
      case (Inl e1)
      with a dm td bl bp have "e1 = InvalidFoldCount" by (simp add: stack_models_body_def)
      with Inl show False by (auto dest: assemble_meta_table_Inl)
    next
      case mx: (Inr meta_X)
      have n2: "nrows bp \<le> nrows meta_X" using mx by (rule assemble_meta_table_nrows)
      obtain st2 res2 where fs: "fit_and_score_meta st1 m meta_X y k seed = (st2, res2)"
        by (cases "fit_and_score_meta st1 m meta_X y k seed")
      with a dm td bl bp mx have "res2 = Inl InvalidFoldCount"
        by (cases res2) (simp_all add: stack_models_body_def)
      with fs have "k < 2 \<or> int (nrows meta_X) < k" by (auto dest: fit_and_score_meta_Inl)
      with k xy n1 n2 show False by linarith
    qed
  qed
qed

lemma stack_models_fold_ok:
  assumes td: "training_data e fin = Inr (X, y, seed)"
    and k: "2 \<le> k" "k \<le> int (nrows X)" and xy: "nrows X \<le> length (snd y)"
  shows "snd (stack_models e st l mm (PInt k) r rs fin v) \<noteq> Inl InvalidFoldCount"
proof (cases "stack_models_checks st l mm (PInt k) r rs v")
  case (Some err)
  then have "\<exists>msg. err = SysExit msg"
    by (auto simp: stack_models_checks_def check_params_def split: if_splits)
  with Some show ?thesis by (auto simp: stack_models_def)
next
  case None
  show ?thesis
  proof (cases rs)
    case (PBool b)
    with None stack_models_body_fold_ok[OF td k xy, of st l mm b] show ?thesis
      by (simp add: stack_models_def)
  next
    case (PInt i)
    with None show ?thesis by (simp add: stack_models_def)
  next
    case POther
    with None show ?thesis by (simp add: stack_models_def)
  qed
qed

lemma stack_models_bad_fold:
  assumes ch: "stack_models_checks st (a # rest) mm (PInt k) r (PBool b) v = None"
    and td: "training_data e fin = Inr (X, y, seed)"
    and dm: "default_meta e st mm = (st0, m)"
    and f: "fit st0 a X y = (st1, Inr a)"
    and k: "k < 2 \<or> int (nrows X) < k"
    and pb: "0 \<le> int (length (a # rest)) + k + 4"
  shows "stack_models e st (a # rest) mm (PInt k) r (PBool b) fin v = (st1, Inl InvalidFoldCount)"
proof -
  have "cross_val_predict (st1 ! a) X y k = Inl InvalidFoldCount"
    using k by (auto simp: cross_val_predict_def KFold_split_def)
  moreover have "progress_bar (int (length (a # rest)) + k + 4) = None"
    using pb by (simp add: progress_bar_def)
  ultimately show ?thesis using ch td dm f
    by (simp add: stack_models_def stack_models_body_def)
qed

lemma stack_models_trait_error:
  assumes ch: "stack_models_checks st l mm (PInt k) r (PBool b) v = None"
    and pb: "int (length l) + k + 4 < 0"
  shows "stack_models e st l mm (PInt k) r (PBool b) fin v = (st, Inl TraitError)"
  using ch pb by (simp add: stack_models_def stack_models_body_def progress_bar_def)

lemma stack_models_fold_type:
  assumes "list_all (\<lambda>i. type_ok (st ! i)) l" and "check_meta st mm" and "\<not> is_int f"
  shows "stack_models e st l mm f r rs fin v =
           (st, Inl (SysExit ''(Type Error): Fold parameter only accepts integer value.''))"
  using assms by (simp add: stack_models_def stack_models_checks_def check_params_def)

text \<open>
  C8, as amended. The claim: a fold count \<open>K < 2\<close> or \<open>K > N\<close> makes the stacking call fail
  at once with \<open>InvalidFoldCount\<close>. The only check \<^verbatim>\<open>stack_models\<close> makes of \<^verbatim>\<open>fold\<close> is
  that it is an \<^verbatim>\<open>int\<close>. An integer out of range passes the checks. When
  \<^verbatim>\<open>len(estimator_list) + fold + 4\<close> is negative the call stops where the progress bar is
  built, with the widget library's error and nothing fitted. Otherwise, with a non-empty
  list whose first estimator fits, the call fails with the fold splitter's
  \<open>InvalidFoldCount\<close> at the first out-of-fold prediction, when that estimator has
  already been fitted on all rows. With \<open>2 \<le> K \<le> N\<close> (and a target of at least \<open>N\<close>
  rows) no step of the call fails with that error.
\<close>

theorem fold_count_checked_by_splitter_only:
  "(stack_models_checks st (a # rest) mm (PInt k) r (PBool b) v = None \<and>
    0 \<le> int (length (a # rest)) + k + 4 \<and>
    training_data e fin = Inr (X, y, seed) \<and>
    default_meta e st mm = (st0, m) \<and>
    fit st0 a X y = (st1, Inr a) \<and>
    (k < 2 \<or> int (nrows X) < k) \<longrightarrow>
      stack_models e st (a # rest) mm (PInt k) r (PBool b) fin v = (st1, Inl InvalidFoldCount))
   \<and> (stack_models_checks st l mm (PInt k) r (PBool b) v = None \<and>
       int (length l) + k + 4 < 0 \<longrightarrow>
      stack_models e st l mm (PInt k) r (PBool b) fin v = (st, Inl TraitError))
   \<and> (training_data e fin = Inr (X, y, seed) \<and> 2 \<le> k \<and> k \<le> int (nrows X) \<and>
       nrows X \<le> length (snd y) \<longrightarrow>
      snd (stack_models e st l mm (PInt k) r rs fin v) \<noteq> Inl InvalidFoldCount)
   \<and> (list_all (\<lambda>i. type_ok (st ! i)) l \<and> check_meta st mm \<and> \<not> is_int f \<longrightarrow>
      stack_models e st l mm f r rs fin v =
        (st, Inl (SysExit ''(Type Error): Fold parameter only accepts integer value.'')))"
proof (intro conjI impI)
  assume "stack_models_checks st (a # rest) mm (PInt k) r (PBool b) v = None \<and>
    0 \<le> int (length (a # rest)) + k + 4 \<and>
    training_data e fin = Inr (X, y, seed) \<and>
    default_meta e st mm = (st0, m) \<and>
    fit st0 a X y = (st1, Inr a) \<and>
    (k < 2 \<or> int (nrows X) < k)"
  then show "stack_models e st (a # rest) mm (PInt k) r (PBool b) fin v = (st1, Inl InvalidFoldCount)"
    by (intro stack_models_bad_fold) blast+
next
  assume "stack_models_checks st l mm (PInt k) r (PBool b) v = None \<and>
       int (length l) + k + 4 < 0"
  then show "stack_models e st l mm (PInt k) r (PBool b) fin v = (st, Inl TraitError)"
    by (intro stack_models_trait_error) blast+
next
  assume "training_data e fin = Inr (X, y, seed) \<and> 2 \<le> k \<and> k \<le> int (nrows X) \<and>
       nrows X \<le> length (snd y)"
  then show "snd (stack_models e st l mm (PInt k) r rs fin v) \<noteq> Inl InvalidFoldCount"
    by (intro stack_models_fold_ok) auto
next
  assume "list_all (\<lambda>i. type_ok (st ! i)) l \<and> check_meta st mm \<and> \<not> is_int f"
  then show "stack_models e st l mm f r rs fin v =
        (st, Inl (SysExit ''(Type Error): Fold parameter only accepts integer value.''))"
    by (intro stack_models_fold_type) auto
qed

theorem fold_count_checked_by_splitter_only_witness:
  "stack_models ex_env [ex_dt] [0] None (PInt 1) (PInt 4) (PBool False) False (PBool True)
     = (fst (fit [ex_dt, ex_lr] 0 ex_X ex_y), Inl InvalidFoldCount)
   \<and> stack_models ex_env [ex_dt] [0] None (PInt (- 10)) (PInt 4) (PBool False) False (PBool True)
     = ([ex_dt], Inl TraitError)
   \<and> snd (stack_models ex_env [ex_dt] [0] None (PInt 2) (PInt 4) (PBool False) False (PBool True))
     \<noteq> Inl InvalidFoldCount
   \<and> stack_models ex_env [ex_dt] [0] None (PBool True) (PInt 4) (PBool False) False (PBool True)
     = ([ex_dt], Inl (SysExit ''(Type Error): Fold parameter only accepts integer value.''))"
proof -
  let ?st1 = "fst (fit [ex_dt, ex_lr] 0 ex_X ex_y)"
  have ch: "stack_models_checks [ex_dt] (0 # []) None (PInt 1) (PInt 4) (PBool False) (PBool True) = None"
    by code_simp
  have ch': "stack_models_checks [ex_dt] [0] None (PInt (- 10)) (PInt 4) (PBool False) (PBool True) = None"
    by code_simp
  have td: "training_data ex_env False = Inr (ex_X, ex_y, 123)"
    by (simp add: training_data_def ex_env_def ex_globals_def)
  have dm: "default_meta ex_env [ex_dt] None = ([ex_dt, ex_lr], 1)"
    by (simp add: default_meta_def ex_env_def)
  have "snd (fit [ex_dt, ex_lr] 0 ex_X ex_y) = Inr 0" by code_simp
  then have f: "fit [ex_dt, ex_lr] 0 ex_X ex_y = (?st1, Inr 0)" by (metis prod.collapse)
  have k: "(1 :: int) < 2 \<or> int (nrows ex_X) < 1" by simp
  have pb: "0 \<le> int (length (0 # ([] :: nat list))) + 1 + 4" by simp
  have pb': "int (length [0 :: nat]) + (- 10) + 4 < 0" by simp
  have n: "(2 :: int) \<le> 2 \<and> 2 \<le> int (nrows ex_X) \<and> nrows ex_X \<le> length (snd ex_y)"
    by (simp add: ex_X_def ex_y_def)
  have ty: "list_all (\<lambda>i. type_ok ([ex_dt] ! i)) [0]" by code_simp
  have cm: "check_meta [ex_dt] None" by (simp add: check_meta_def)
  note t1 = fold_count_checked_by_splitter_only[of "[ex_dt]" 0 "[]" None 1 "PInt 4" False "PBool True"
      ex_env False ex_X ex_y 123 "[ex_dt, ex_lr]" 1 ?st1 "[0]" "PBool False" "PBool True"]
  note t2 = fold_count_checked_by_splitter_only[of "[ex_dt]" 0 "[]" None 2 "PInt 4" False "PBool True"
      ex_env False ex_X ex_y 123 "[ex_dt, ex_lr]" 1 ?st1 "[0]" "PBool False" "PBool True"]
  note t3 = fold_count_checked_by_splitter_only[of "[ex_dt]" 0 "[]" None "- 10" "PInt 4" False "PBool True"
      ex_env False ex_X ex_y 123 "[ex_dt, ex_lr]" 1 ?st1 "[0]" "PBool False" "PBool True"]
  from t1 ch pb td dm f k
  have 1: "stack_models ex_env [ex_dt] [0] None (PInt 1) (PInt 4) (PBool False) False (PBool True)
     = (?st1, Inl InvalidFoldCount)" by blast
  from t3 ch' pb'
  have 4: "stack_models ex_env [ex_dt] [0] None (PInt (- 10)) (PInt 4) (PBool False) False (PBool True)
     = ([ex_dt], Inl TraitError)" by blast
  from t2 td n
  have 2: "snd (stack_models ex_env [ex_dt] [0] None (PInt 2) (PInt 4) (PBool False) False (PBool True))
     \<noteq> Inl InvalidFoldCount" by blast
  from t1 ty cm
  have 3: "stack_models ex_env [ex_dt] [0] None (PBool True) (PInt 4) (PBool False) False (PBool True)
     = ([ex_dt], Inl (SysExit ''(Type Error): Fold parameter only accepts integer value.''))"
    by simp
  from 1 4 2 3 show ?thesis by blast
qed

text \<open>
  C8, the claim as stated fails. With \<^verbatim>\<open>fold = 1\<close> (and with \<^verbatim>\<open>fold = 5\<close> on four rows)
  the checks pass, and when the call fails the first base estimator, unfitted before,
  is fitted on the whole table: the failure is not immediate. With \<^verbatim>\<open>fold = -10\<close> the
  checks pass and the call fails with the progress bar's \<^verbatim>\<open>TraitError\<close>, the estimator
  still unfitted. With an empty estimator list and \<^verbatim>\<open>fold = 1\<close> the call fails with an
  \<^verbatim>\<open>IndexError\<close>. None of the last two is \<open>InvalidFoldCount\<close>.
\<close>

theorem fold_count_failure_not_immediate:
  "stack_models_checks [ex_dt] [0] None (PInt 1) (PInt 4) (PBool False) (PBool True) = None
   \<and> trained_on ex_dt = None
   \<and> snd (stack_models ex_env [ex_dt] [0] None (PInt 1) (PInt 4) (PBool False) False (PBool True))
       = Inl InvalidFoldCount
   \<and> trained_on (fst (stack_models ex_env [ex_dt] [0] None (PInt 1) (PInt 4) (PBool False) False (PBool True)) ! 0)
       = Some (ex_X, ex_y)
   \<and> snd (stack_models ex_env [ex_dt] [0] None (PInt 5) (PInt 4) (PBool False) False (PBool True))
       = Inl InvalidFoldCount
   \<and> trained_on (fst (stack_models ex_env [ex_dt] [0] None (PInt 5) (PInt 4) (PBool False) False (PBool True)) ! 0)
       = Some (ex_X, ex_y)
   \<and> stack_models_checks [ex_dt] [0] None (PInt (- 10)) (PInt 4) (PBool False) (PBool True) = None
   \<and> snd (stack_models ex_env [ex_dt] [0] None (PInt (- 10)) (PInt 4) (PBool False) False (PBool True))
       = Inl TraitError
   \<and> trained_on (fst (stack_models ex_env [ex_dt] [0] None (PInt (- 10)) (PInt 4) (PBool False) False (PBool True)) ! 0)
       = None
   \<and> snd (stack_models ex_env [] [] None (PInt 1) (PInt 4) (PBool False) False (PBool True))
       = Inl IndexError"
  by code_simp

subsection \<open>The columns of the intermediate levels\<close>

lemma repr_str_clone: "repr_str (clone obj) = repr_str obj"
  by (simp add: clone_def)

lemma clone_repr: "clone a = clone b \<Longrightarrow> repr_str a = repr_str b"
  by (metis repr_str_clone)

lemma clone_clone: "clone (clone obj) = clone obj"
  by (simp add: clone_def)

lemma oof_folds_clone: "oof_folds (clone obj) X y folds = oof_folds obj X y folds"
  by (induction folds) (auto simp: clone_clone split: sum.splits)

lemma cross_val_predict_clone:
  "clone a = clone b \<Longrightarrow> cross_val_predict a X y k = cross_val_predict b X y k"
proof -
  assume c: "clone a = clone b"
  have "cross_val_predict a X y k = cross_val_predict (clone a) X y k"
    by (auto simp: cross_val_predict_def oof_folds_clone split: sum.splits)
  also have "\<dots> = cross_val_predict (clone b) X y k" by (simp add: c)
  also have "\<dots> = cross_val_predict b X y k"
    by (auto simp: cross_val_predict_def oof_folds_clone split: sum.splits)
  finally show ?thesis .
qed

lemma inter_inner_loop_length:
  "inter_inner_loop st l B y k n c j D = (st', res) \<Longrightarrow> length st' = length st"
proof (induction l arbitrary: st j D)
  case Nil
  then show ?case by simp
next
  case (Cons m l)
  then show ?case
    by (auto split: sum.splits prod.splits if_splits dest: fit_length)
qed

lemma inter_inner_loop_clone:
  "inter_inner_loop st l B y k n c j D = (st', res) \<Longrightarrow> clone (st' ! i) = clone (st ! i)"
proof (induction l arbitrary: st j D)
  case Nil
  then show ?case by simp
next
  case (Cons m l)
  show ?case
  proof (cases "n \<le> c")
    case True
    with Cons.prems show ?thesis by simp
  next
    case False
    obtain st1 r1 where f: "fit st m B y = (st1, r1)" by (cases "fit st m B y")
    have c1: "clone (st1 ! i) = clone (st ! i)" using f by (rule fit_clone)
    show ?thesis
    proof (cases r1)
      case (Inl e)
      with f False Cons.prems c1 show ?thesis by simp
    next
      case (Inr r)
      show ?thesis
      proof (cases "cross_val_predict (st1 ! m) B y k")
        case (Inl e)
        with f Inr False Cons.prems c1 show ?thesis by simp
      next
        case cv: (Inr arr)
        with f Inr False Cons.prems obtain D1 where
          "inter_inner_loop st1 l B y k n c (Suc j) D1 = (st', res)" by simp
        from Cons.IH[OF this] c1 show ?thesis by simp
      qed
    qed
  qed
qed

lemma inter_inner_loop_cols:
  "inter_inner_loop st l B y k n c j D = (st', Inr D') \<Longrightarrow>
     length (cols D') = length (cols D) + length l \<and>
     take (length (cols D)) (cols D') = cols D \<and>
     map fst (drop (length (cols D)) (cols D')) =
       map (\<lambda>p. inter_col (repr_str (st ! fst p)) c (snd p)) (zip l [j..<j + length l]) \<and>
     map (\<lambda>col. Inr (snd col)) (drop (length (cols D)) (cols D')) =
       map (\<lambda>r. cross_val_predict (st ! r) B y k) l \<and>
     max (nrows D) (nrows D') = nrows D'"
proof (induction l arbitrary: st j D)
  case Nil
  then show ?case by simp
next
  case (Cons m l)
  from Cons.prems obtain st1 r arr where
    f: "fit st m B y = (st1, Inr r)" and
    cv: "cross_val_predict (st1 ! m) B y k = Inr arr" and
    rest: "inter_inner_loop st1 l B y k n c (Suc j)
             (concat_cols D (DataFrame_named (inter_col (repr_str (st1 ! m)) c j) arr)) = (st', Inr D')"
    by (auto split: sum.splits prod.splits if_splits)
  let ?D1 = "concat_cols D (DataFrame_named (inter_col (repr_str (st1 ! m)) c j) arr)"
  have cl: "\<And>i. clone (st1 ! i) = clone (st ! i)" using f by (rule fit_clone)
  have rp: "\<And>i. repr_str (st1 ! i) = repr_str (st ! i)" using cl by (rule clone_repr)
  have cvp: "\<And>i. cross_val_predict (st1 ! i) B y k = cross_val_predict (st ! i) B y k"
    using cl by (rule cross_val_predict_clone)
  have c1: "cols ?D1 = cols D @ [(inter_col (repr_str (st ! m)) c j, arr)]"
    by (simp add: concat_cols_def DataFrame_named_def rp)
  have n1: "nrows D \<le> nrows ?D1" by (simp add: concat_cols_def)
  from Cons.IH[OF rest]
  have len: "length (cols D') = length (cols ?D1) + length l"
    and tk: "take (length (cols ?D1)) (cols D') = cols ?D1"
    and nm: "map fst (drop (length (cols ?D1)) (cols D')) =
       map (\<lambda>p. inter_col (repr_str (st1 ! fst p)) c (snd p)) (zip l [Suc j..<Suc j + length l])"
    and vl: "map (\<lambda>col. Inr (snd col)) (drop (length (cols ?D1)) (cols D')) =
       map (\<lambda>r. cross_val_predict (st1 ! r) B y k) l"
    and nr: "max (nrows ?D1) (nrows D') = nrows D'"
    by blast+
  have l1: "length (cols ?D1) = Suc (length (cols D))" by (simp add: c1)
  have split: "cols D' = cols ?D1 @ drop (length (cols ?D1)) (cols D')"
    using tk by (metis append_take_drop_id)
  then have D': "cols D' = cols D @ (inter_col (repr_str (st ! m)) c j, arr) #
                              drop (Suc (length (cols D))) (cols D')"
    by (simp add: c1)
  have dr: "drop (length (cols D)) (cols D') =
              (inter_col (repr_str (st ! m)) c j, arr) # drop (Suc (length (cols D))) (cols D')"
    by (subst D') simp
  have tk0: "take (length (cols D)) (cols D') = cols D"
    by (subst D') simp
  have up: "[j..<Suc (j + length l)] = j # [Suc j..<Suc (j + length l)]"
    by (simp add: upt_rec)
  have nm': "map fst (drop (Suc (length (cols D))) (cols D')) =
       map (\<lambda>p. inter_col (repr_str (st ! fst p)) c (snd p)) (zip l [Suc j..<Suc (j + length l)])"
    using nm unfolding l1 by (simp add: rp del: upt_Suc)
  show ?case
  proof (intro conjI)
    show "length (cols D') = length (cols D) + length (m # l)" using len l1 by simp
    show "take (length (cols D)) (cols D') = cols D" by (rule tk0)
    show "map fst (drop (length (cols D)) (cols D')) =
       map (\<lambda>p. inter_col (repr_str (st ! fst p)) c (snd p)) (zip (m # l) [j..<j + length (m # l)])"
      by (simp add: dr up nm' del: upt_Suc)
    show "map (\<lambda>col. Inr (snd col)) (drop (length (cols D)) (cols D')) =
       map (\<lambda>r. cross_val_predict (st ! r) B y k) (m # l)"
      using vl cv unfolding l1 by (simp add: dr cvp)
    show "max (nrows D) (nrows D') = nrows D'" using nr n1 by simp
  qed
qed


lemma inter_levels_loop_step:
  assumes "inter_inner_loop st lv B y k n c 0 empty_frame = (st1, Inr D)"
  shows "inter_levels_loop st (lv # rest) B y k False n c =
           inter_levels_loop st1 rest \<lparr>nrows = max (nrows B) (nrows D), cols = cols D\<rparr> y k False n (Suc c)"
proof -
  from inter_inner_loop_cols[OF assms] have len: "length (cols D) = length lv"
    by (simp add: empty_frame_def)
  have "iloc_cols_from (length (cols (concat_cols B D)) - length lv) (concat_cols B D) =
          \<lparr>nrows = max (nrows B) (nrows D), cols = cols D\<rparr>"
    by (simp add: iloc_cols_from_def concat_cols_def len)
  with assms show ?thesis by (simp add: Let_def)
qed

lemma inter_levels_loop_length:
  "inter_levels_loop st ls B y k rs n c = (st', res) \<Longrightarrow> length st' = length st"
proof (induction ls arbitrary: st B c)
  case Nil
  then show ?case by simp
next
  case (Cons lv ls)
  obtain st1 r1 where i: "inter_inner_loop st lv B y k n c 0 empty_frame = (st1, r1)"
    by (cases "inter_inner_loop st lv B y k n c 0 empty_frame")
  have l1: "length st1 = length st" using i by (rule inter_inner_loop_length)
  show ?case
  proof (cases r1)
    case (Inl e)
    with i Cons.prems l1 show ?thesis by simp
  next
    case (Inr D)
    with i Cons.prems obtain B' where "inter_levels_loop st1 ls B' y k rs n (Suc c) = (st', res)"
      by (auto simp: Let_def)
    from Cons.IH[OF this] l1 show ?thesis by simp
  qed
qed

lemma inter_levels_loop_last_names:
  "inter_levels_loop st ls B y k False n c = (st', Inr T) \<Longrightarrow> ls \<noteq> [] \<Longrightarrow>
     map fst (cols T) =
       map (\<lambda>p. inter_col (repr_str (st ! fst p)) (c + length ls - 1) (snd p))
           (zip (last ls) [0..<length (last ls)])"
proof (induction ls arbitrary: st B c)
  case Nil
  then show ?case by simp
next
  case (Cons lv ls)
  obtain st1 r1 where i: "inter_inner_loop st lv B y k n c 0 empty_frame = (st1, r1)"
    by (cases "inter_inner_loop st lv B y k n c 0 empty_frame")
  show ?case
  proof (cases r1)
    case (Inl e)
    with i Cons.prems(1) show ?thesis by simp
  next
    case (Inr D)
    note i' = i[unfolded Inr]
    from inter_levels_loop_step[OF i'] Cons.prems(1)
    have rest: "inter_levels_loop st1 ls \<lparr>nrows = max (nrows B) (nrows D), cols = cols D\<rparr> y k False n (Suc c)
                  = (st', Inr T)" by simp
    show ?thesis
    proof (cases "ls = []")
      case True
      with rest have "cols T = cols D" by auto
      moreover from inter_inner_loop_cols[OF i']
      have "map fst (cols D) =
         map (\<lambda>p. inter_col (repr_str (st ! fst p)) c (snd p)) (zip lv [0..<length lv])"
        by (simp add: empty_frame_def)
      ultimately show ?thesis using True by simp
    next
      case False
      have rp: "\<And>r. repr_str (st1 ! r) = repr_str (st ! r)"
        using inter_inner_loop_clone[OF i'] by (rule clone_repr)
      from Cons.IH[OF rest False] False show ?thesis by (simp add: rp)
    qed
  qed
qed

lemma stacknet_base_loop_length:
  "stacknet_base_loop st l X y k n c bp = (st', res) \<Longrightarrow> length st' = length st"
proof (induction l arbitrary: st c bp)
  case Nil
  then show ?case by simp
next
  case (Cons m l)
  then show ?case
    by (auto split: sum.splits prod.splits if_splits dest: fit_length)
qed

lemma stacknet_base_loop_clone:
  "stacknet_base_loop st l X y k n c bp = (st', res) \<Longrightarrow> clone (st' ! i) = clone (st ! i)"
proof (induction l arbitrary: st c bp)
  case Nil
  then show ?case by simp
next
  case (Cons m l)
  obtain st1 r1 where f: "fit st m X y = (st1, r1)" by (cases "fit st m X y")
  have c1: "clone (st1 ! i) = clone (st ! i)" using f by (rule fit_clone)
  show ?case
  proof (cases r1)
    case (Inl e)
    with f Cons.prems c1 show ?thesis by simp
  next
    case (Inr r)
    show ?thesis
    proof (cases "n \<le> c")
      case True
      with f Inr Cons.prems c1 show ?thesis by simp
    next
      case False
      show ?thesis
      proof (cases "cross_val_predict (st1 ! m) X y k")
        case (Inl e)
        with f Inr False Cons.prems c1 show ?thesis by simp
      next
        case cv: (Inr arr)
        with f Inr False Cons.prems obtain bp1 where
          "stacknet_base_loop st1 l X y k n (Suc c) bp1 = (st', res)" by simp
        from Cons.IH[OF this] c1 show ?thesis by simp
      qed
    qed
  qed
qed

lemma stacknet_base_table_length:
  "stacknet_base_table st ll X y k rs = (st', res) \<Longrightarrow> length st' = length st"
  by (auto simp: stacknet_base_table_def Let_def split: sum.splits prod.splits
           dest: stacknet_base_loop_length)

lemma stacknet_base_table_clone:
  "stacknet_base_table st ll X y k rs = (st', res) \<Longrightarrow> clone (st' ! i) = clone (st ! i)"
  by (auto simp: stacknet_base_table_def Let_def split: sum.splits prod.splits
           dest: stacknet_base_loop_clone)

lemma fit_and_score_meta_trained_cols:
  assumes "fit_and_score_meta st m X y K seed = (st', Inr u)" and "m < length st"
  shows "\<exists>T ys. trained_on (st' ! m) = Some (T, ys) \<and> map fst (cols T) = map fst (cols X)"
proof -
  from assms(1) obtain st1 r folds where
    f: "fit st m X y = (st1, Inr r)" and
    k: "KFold_split K (Some seed) (nrows X) = Inr folds" and
    l: "meta_cv_loop st1 m X y folds = (st', Inr u)"
    by (auto simp: fit_and_score_meta_def split: sum.splits prod.splits)
  have len: "m < length st1" using f assms(2) by (auto dest: fit_length)
  from meta_cv_loop_last[OF l KFold_split_Inr(4)[OF k] len] obtain ytr where
    "trained_on (st' ! m) = Some (iloc_rows X (fst (last folds)), ytr)" by blast
  moreover have "map fst (cols (iloc_rows X (fst (last folds)))) = map fst (cols X)"
    by (simp add: iloc_rows_def comp_def)
  ultimately show ?thesis by blast
qed

lemma create_stacknet_meta_table:
  assumes ok: "create_stacknet e st ll mm f r (PBool False) fin v = (st', Inr cont)"
    and lv: "tl ll \<noteq> []"
    and mv: "\<forall>a. mm = Some a \<longrightarrow> a < length st"
    and rv: "\<forall>a\<in>set (last ll). a < length st"
  shows "\<exists>m T ys. cont = map Level ll @ [Est m, Flag False] \<and>
           trained_on (st' ! m) = Some (T, ys) \<and>
           map fst (cols T) =
             map (\<lambda>p. inter_col (repr_str (st ! fst p)) (length ll - 2) (snd p))
                 (zip (last ll) [0..<length (last ll)])"
proof -
  from create_stacknet_Inr[OF ok] obtain k where
    body: "create_stacknet_body e st ll mm k False fin = (st', Inr cont)" by auto
  from create_stacknet_body_Inr[OF body] obtain st0 m X y seed st1 B st2 T0 where
    ne: "ll \<noteq> []" and
    dm: "default_meta e st mm = (st0, m)" and
    bt: "stacknet_base_table st0 ll X y k False = (st1, Inr B)" and
    il: "inter_levels_loop st1 (tl ll) B y k False (2 * length (concat (tl ll))) 0 = (st2, Inr T0)" and
    fs: "fit_and_score_meta st2 m T0 y k seed = (st', Inr ())" and
    c: "cont = map Level ll @ [Est m, Flag False]"
    by blast
  have m0: "m < length st0" using dm mv by (rule default_meta_valid)
  have "length st2 = length st0"
    using stacknet_base_table_length[OF bt] inter_levels_loop_length[OF il] by simp
  with m0 have m2: "m < length st2" by simp
  from fit_and_score_meta_trained_cols[OF fs m2] obtain T ys where
    T: "trained_on (st' ! m) = Some (T, ys)" "map fst (cols T) = map fst (cols T0)" by blast
  have last_eq: "last (tl ll) = last ll" using lv ne by (cases ll) auto
  have names: "map fst (cols T0) =
       map (\<lambda>p. inter_col (repr_str (st1 ! fst p)) (length ll - 2) (snd p))
           (zip (last ll) [0..<length (last ll)])"
    using inter_levels_loop_last_names[OF il lv] by (simp add: last_eq numeral_2_eq_2)
  have rp: "\<And>a. a < length st \<Longrightarrow> repr_str (st1 ! a) = repr_str (st ! a)"
  proof -
    fix a assume a: "a < length st"
    have "repr_str (st1 ! a) = repr_str (st0 ! a)"
      using stacknet_base_table_clone[OF bt] by (rule clone_repr)
    also have "st0 ! a = st ! a" using default_meta_cases[OF dm] a by simp
    finally show "repr_str (st1 ! a) = repr_str (st ! a)" .
  qed
  have "map (\<lambda>p. inter_col (repr_str (st1 ! fst p)) (length ll - 2) (snd p))
           (zip (last ll) [0..<length (last ll)]) =
        map (\<lambda>p. inter_col (repr_str (st ! fst p)) (length ll - 2) (snd p))
           (zip (last ll) [0..<length (last ll)])"
  proof (rule map_cong[OF refl])
    fix p assume "p \<in> set (zip (last ll) [0..<length (last ll)])"
    then have "fst p \<in> set (last ll)" by (metis prod.collapse set_zip_leftD)
    with rv have "fst p < length st" by simp
    then show "inter_col (repr_str (st1 ! fst p)) (length ll - 2) (snd p) =
               inter_col (repr_str (st ! fst p)) (length ll - 2) (snd p)"
      by (simp add: rp)
  qed
  with names T c show ?thesis by auto
qed


text \<open>
  C4. In \<^verbatim>\<open>create_stacknet\<close> with \<^verbatim>\<open>restack = False\<close>, when an intermediate level has been
  processed, the table carried forward holds exactly the new out-of-fold columns of that
  level: one per estimator of the level, in their order, under the names of the naming
  contract, and no column of the table the level was given. So when the call succeeds
  with at least one intermediate level, the table on which the meta estimator is fitted
  has the columns of the last level only; for the layers \<^verbatim>\<open>[[A, B], [C]]\<close> that is one
  column, the out-of-fold output of \<^verbatim>\<open>C\<close>.
\<close>

theorem create_stacknet_carries_new_columns_only:
  "(inter_inner_loop st lv B y k n c 0 empty_frame = (st1, Inr D) \<longrightarrow>
      inter_levels_loop st (lv # rest) B y k False n c =
        inter_levels_loop st1 rest \<lparr>nrows = max (nrows B) (nrows D), cols = cols D\<rparr> y k False n (Suc c)
      \<and> length (cols D) = length lv
      \<and> map fst (cols D) =
          map (\<lambda>p. inter_col (repr_str (st ! fst p)) c (snd p)) (zip lv [0..<length lv])
      \<and> map (\<lambda>col. Inr (snd col)) (cols D) = map (\<lambda>r. cross_val_predict (st ! r) B y k) lv)
   \<and> (create_stacknet e st ll mm f r (PBool False) fin v = (st', Inr cont) \<and> tl ll \<noteq> [] \<and>
       (\<forall>a. mm = Some a \<longrightarrow> a < length st) \<and> (\<forall>a\<in>set (last ll). a < length st) \<longrightarrow>
      (\<exists>m T ys. cont = map Level ll @ [Est m, Flag False] \<and>
           trained_on (st' ! m) = Some (T, ys) \<and>
           map fst (cols T) =
             map (\<lambda>p. inter_col (repr_str (st ! fst p)) (length ll - 2) (snd p))
                 (zip (last ll) [0..<length (last ll)])))"
proof (intro conjI impI)
  assume i: "inter_inner_loop st lv B y k n c 0 empty_frame = (st1, Inr D)"
  show "inter_levels_loop st (lv # rest) B y k False n c =
        inter_levels_loop st1 rest \<lparr>nrows = max (nrows B) (nrows D), cols = cols D\<rparr> y k False n (Suc c)"
    using i by (rule inter_levels_loop_step)
  from inter_inner_loop_cols[OF i]
  show "length (cols D) = length lv"
    and "map fst (cols D) =
          map (\<lambda>p. inter_col (repr_str (st ! fst p)) c (snd p)) (zip lv [0..<length lv])"
    and "map (\<lambda>col. Inr (snd col)) (cols D) = map (\<lambda>r. cross_val_predict (st ! r) B y k) lv"
    by (simp_all add: empty_frame_def)
next
  assume "create_stacknet e st ll mm f r (PBool False) fin v = (st', Inr cont) \<and> tl ll \<noteq> [] \<and>
       (\<forall>a. mm = Some a \<longrightarrow> a < length st) \<and> (\<forall>a\<in>set (last ll). a < length st)"
  then show "\<exists>m T ys. cont = map Level ll @ [Est m, Flag False] \<and>
           trained_on (st' ! m) = Some (T, ys) \<and>
           map fst (cols T) =
             map (\<lambda>p. inter_col (repr_str (st ! fst p)) (length ll - 2) (snd p))
                 (zip (last ll) [0..<length (last ll)])"
    by (intro create_stacknet_meta_table) auto
qed

theorem create_stacknet_carries_new_columns_only_witness:
  "snd (create_stacknet ex_env [ex_cb, ex_rf, ex_lr] [[0, 1], [2]] None (PInt 2) (PInt 4) (PBool False) False (PBool True))
     = Inr [Level [0, 1], Level [2], Est 3, Flag False]
   \<and> (\<exists>T ys. trained_on (fst (create_stacknet ex_env [ex_cb, ex_rf, ex_lr] [[0, 1], [2]] None
                                 (PInt 2) (PInt 4) (PBool False) False (PBool True)) ! 3) = Some (T, ys)
            \<and> map fst (cols T) = [''LinearRegression_InterLevel_0_0''])
   \<and> snd (inter_inner_loop [ex_lr] [0] ex_X ex_y 2 2 0 0 empty_frame)
       = Inr \<lparr>nrows = 4, cols = [(''LinearRegression_InterLevel_0_0'', [2, 2, 2, 2])]\<rparr>
   \<and> inter_levels_loop [ex_lr] [[0]] ex_X ex_y 2 False 2 0
       = (fst (inter_inner_loop [ex_lr] [0] ex_X ex_y 2 2 0 0 empty_frame),
          Inr \<lparr>nrows = 4, cols = [(''LinearRegression_InterLevel_0_0'', [2, 2, 2, 2])]\<rparr>)"
proof -
  let ?S = "create_stacknet ex_env [ex_cb, ex_rf, ex_lr] [[0, 1], [2]] None (PInt 2) (PInt 4) (PBool False) False (PBool True)"
  let ?I = "inter_inner_loop [ex_lr] [0] ex_X ex_y 2 2 0 0 empty_frame"
  let ?D = "\<lparr>nrows = 4, cols = [(''LinearRegression_InterLevel_0_0'', [2, 2, 2, 2 :: real])]\<rparr>"
  have 1: "snd ?S = Inr [Level [0, 1], Level [2], Est 3, Flag False]" by code_simp
  then have s: "?S = (fst ?S, Inr [Level [0, 1], Level [2], Est 3, Flag False])"
    by (metis prod.collapse)
  have 3: "snd ?I = Inr ?D" by code_simp
  then have i: "?I = (fst ?I, Inr ?D)" by (metis prod.collapse)
  have h: "tl [[0, 1], [2 :: nat]] \<noteq> [] \<and>
       (\<forall>a. (None :: nat option) = Some a \<longrightarrow> a < length [ex_cb, ex_rf, ex_lr]) \<and>
       (\<forall>a\<in>set (last [[0, 1], [2 :: nat]]). a < length [ex_cb, ex_rf, ex_lr])" by simp
  have nm: "map (\<lambda>p. inter_col (repr_str ([ex_cb, ex_rf, ex_lr] ! fst p)) (length [[0, 1], [2 :: nat]] - 2) (snd p))
                 (zip (last [[0, 1], [2]]) [0..<length (last [[0, 1], [2 :: nat]])])
            = [''LinearRegression_InterLevel_0_0'']" by code_simp
  note t = create_stacknet_carries_new_columns_only[of "[ex_lr]" "[0]" ex_X ex_y 2 2 0 "fst ?I" ?D "[]"
      ex_env "[[0, 1], [2]]" None "PInt 2" "PInt 4" False "PBool True" "fst ?S"
      "[Level [0, 1], Level [2], Est 3, Flag False]"]
  from t i have 4: "inter_levels_loop [ex_lr] [[0]] ex_X ex_y 2 False 2 0 = (fst ?I, Inr ?D)"
    by (simp add: ex_X_def)
  note t2 = create_stacknet_carries_new_columns_only[of "[ex_cb, ex_rf, ex_lr]" "[]" ex_X ex_y 2 0 0
      "[ex_cb, ex_rf, ex_lr]" empty_frame "[]"
      ex_env "[[0, 1], [2]]" None "PInt 2" "PInt 4" False "PBool True" "fst ?S"
      "[Level [0, 1], Level [2], Est 3, Flag False]"]
  from t2 s h obtain m T ys where
    c: "[Level [0, 1], Level [2], Est 3, Flag False] = map Level [[0, 1], [2]] @ [Est m, Flag False]" and
    tr: "trained_on (fst ?S ! m) = Some (T, ys)" and
    names: "map fst (cols T) =
             map (\<lambda>p. inter_col (repr_str ([ex_cb, ex_rf, ex_lr] ! fst p)) (length [[0, 1], [2 :: nat]] - 2) (snd p))
                 (zip (last [[0, 1], [2]]) [0..<length (last [[0, 1], [2 :: nat]])])"
    by blast
  from c have "m = 3" by simp
  with tr names nm have 2: "\<exists>T ys. trained_on (fst ?S ! 3) = Some (T, ys) \<and>
       map fst (cols T) = [''LinearRegression_InterLevel_0_0'']" by auto
  from 1 2 3 4 show ?thesis by blast
qed

subsection \<open>The partition behind the out-of-fold columns\<close>

lemma base_loop_cols:
  "base_loop st l X y k bp = (st', Inr bp') \<Longrightarrow>
     length (cols bp') = length (cols bp) + length l \<and>
     take (length (cols bp)) (cols bp') = cols bp \<and>
     map (\<lambda>col. Inr (snd col)) (drop (length (cols bp)) (cols bp')) =
       map (\<lambda>r. cross_val_predict (st ! r) X y k) l"
proof (induction l arbitrary: st bp)
  case Nil
  then show ?case by simp
next
  case (Cons m l)
  from Cons.prems obtain st1 r arr where
    f: "fit st m X y = (st1, Inr r)" and
    cv: "cross_val_predict (st1 ! m) X y k = Inr arr" and
    rest: "base_loop st1 l X y k (concat_cols bp (DataFrame arr)) = (st', Inr bp')"
    by (auto split: sum.splits prod.splits)
  let ?b1 = "concat_cols bp (DataFrame arr)"
  have cl: "\<And>i. clone (st1 ! i) = clone (st ! i)" using f by (rule fit_clone)
  have cvp: "\<And>i. cross_val_predict (st1 ! i) X y k = cross_val_predict (st ! i) X y k"
    using cl by (rule cross_val_predict_clone)
  have c1: "cols ?b1 = cols bp @ [(''0'', arr)]"
    by (simp add: concat_cols_def DataFrame_def)
  have l1: "length (cols ?b1) = Suc (length (cols bp))" by (simp add: c1)
  from Cons.IH[OF rest]
  have len: "length (cols bp') = length (cols ?b1) + length l"
    and tk: "take (length (cols ?b1)) (cols bp') = cols ?b1"
    and vl: "map (\<lambda>col. Inr (snd col)) (drop (length (cols ?b1)) (cols bp')) =
       map (\<lambda>r. cross_val_predict (st1 ! r) X y k) l"
    by blast+
  have "cols bp' = cols ?b1 @ drop (length (cols ?b1)) (cols bp')"
    using tk by (metis append_take_drop_id)
  then have b': "cols bp' = cols bp @ (''0'', arr) # drop (Suc (length (cols bp))) (cols bp')"
    by (simp add: c1)
  have dr: "drop (length (cols bp)) (cols bp') = (''0'', arr) # drop (Suc (length (cols bp))) (cols bp')"
    by (subst b') simp
  have tk0: "take (length (cols bp)) (cols bp') = cols bp"
    by (subst b') simp
  show ?case
  proof (intro conjI)
    show "length (cols bp') = length (cols bp) + length (m # l)" using len l1 by simp
    show "take (length (cols bp)) (cols bp') = cols bp" by (rule tk0)
    show "map (\<lambda>col. Inr (snd col)) (drop (length (cols bp)) (cols bp')) =
       map (\<lambda>r. cross_val_predict (st ! r) X y k) (m # l)"
      using vl cv unfolding l1 by (simp add: dr cvp)
  qed
qed

lemma cross_val_predict_partition:
  "KFold_split k s (nrows X) = Inr P \<Longrightarrow> cross_val_predict obj X y k = oof_folds obj X y P"
  by (simp add: cross_val_predict_def KFold_split_def split: if_splits)

lemma cross_val_predict_Inr_split:
  "cross_val_predict obj X y k = Inr a \<Longrightarrow> \<exists>P. \<forall>s. KFold_split k s (nrows X) = Inr P"
  by (auto simp: cross_val_predict_def KFold_split_def split: if_splits sum.splits)

lemma same_partition_for_list:
  assumes "map (\<lambda>col. Inr (snd col)) cs = map (\<lambda>r. cross_val_predict (st ! r) X y k) l"
    and "l \<noteq> []"
  shows "\<exists>P. (\<forall>s. KFold_split k s (nrows X) = Inr P) \<and>
             map (\<lambda>col. Inr (snd col)) cs = map (\<lambda>r. oof_folds (st ! r) X y P) l"
proof -
  from assms(2) obtain r rest where l: "l = r # rest" by (cases l) auto
  with assms(1) obtain c cs' where "cs = c # cs'" by (cases cs) auto
  with assms(1) l have "cross_val_predict (st ! r) X y k = Inr (snd c)" by simp
  from cross_val_predict_Inr_split[OF this] obtain P where
    P: "\<forall>s. KFold_split k s (nrows X) = Inr P" by blast
  then have "\<And>obj. cross_val_predict obj X y k = oof_folds obj X y P"
    by (auto intro: cross_val_predict_partition)
  with assms(1) P show ?thesis by auto
qed

text \<open>
  C7. Within one stacking call every out-of-fold column of a layer is computed with one
  and the same partition of the row positions: the one the fold splitter gives for the
  fold count and the row count of the layer's table, whatever the seed. The base
  estimators of \<^verbatim>\<open>stack_models\<close> and the estimators of an intermediate level of
  \<^verbatim>\<open>create_stacknet\<close> are all given that partition, so their columns align row for row;
  and the same row count, fold count and seed give the same partition again.
\<close>

theorem one_partition_per_layer:
  "(base_loop st l X y k bp = (st', Inr bp') \<and> l \<noteq> [] \<longrightarrow>
      (\<exists>P. (\<forall>s. KFold_split k s (nrows X) = Inr P) \<and>
            length (cols bp') = length (cols bp) + length l \<and>
            map (\<lambda>col. Inr (snd col)) (drop (length (cols bp)) (cols bp')) =
              map (\<lambda>r. oof_folds (st ! r) X y P) l))
   \<and> (inter_inner_loop st l B y k n c 0 empty_frame = (st1, Inr D) \<and> l \<noteq> [] \<longrightarrow>
      (\<exists>P. (\<forall>s. KFold_split k s (nrows B) = Inr P) \<and>
            map (\<lambda>col. Inr (snd col)) (cols D) = map (\<lambda>r. oof_folds (st ! r) B y P) l))
   \<and> KFold_split k s N = KFold_split k s' N"
proof (intro conjI impI)
  assume a: "base_loop st l X y k bp = (st', Inr bp') \<and> l \<noteq> []"
  then have bl: "base_loop st l X y k bp = (st', Inr bp')" and ne: "l \<noteq> []" by auto
  from base_loop_cols[OF bl]
  have len: "length (cols bp') = length (cols bp) + length l"
    and vl: "map (\<lambda>col. Inr (snd col)) (drop (length (cols bp)) (cols bp')) =
       map (\<lambda>r. cross_val_predict (st ! r) X y k) l" by blast+
  from same_partition_for_list[OF vl ne] len
  show "\<exists>P. (\<forall>s. KFold_split k s (nrows X) = Inr P) \<and>
            length (cols bp') = length (cols bp) + length l \<and>
            map (\<lambda>col. Inr (snd col)) (drop (length (cols bp)) (cols bp')) =
              map (\<lambda>r. oof_folds (st ! r) X y P) l" by blast
next
  assume a: "inter_inner_loop st l B y k n c 0 empty_frame = (st1, Inr D) \<and> l \<noteq> []"
  then have il: "inter_inner_loop st l B y k n c 0 empty_frame = (st1, Inr D)" and ne: "l \<noteq> []"
    by auto
  from inter_inner_loop_cols[OF il]
  have vl: "map (\<lambda>col. Inr (snd col)) (cols D) = map (\<lambda>r. cross_val_predict (st ! r) B y k) l"
    by (simp add: empty_frame_def)
  from same_partition_for_list[OF vl ne]
  show "\<exists>P. (\<forall>s. KFold_split k s (nrows B) = Inr P) \<and>
            map (\<lambda>col. Inr (snd col)) (cols D) = map (\<lambda>r. oof_folds (st ! r) B y P) l" .
next
  show "KFold_split k s N = KFold_split k s' N" by (rule KFold_split_seed)
qed


theorem one_partition_per_layer_witness:
  "snd (base_loop [ex_dt, ex_rf] [0, 1] ex_X ex_y 2 (DataFrame_series ex_y))
     = Inr \<lparr>nrows = 4, cols = [(''medv'', [10, 20, 30, 40]), (''0'', [2, 2, 2, 2]), (''0'', [2, 2, 2, 2])]\<rparr>
   \<and> (\<exists>P. (\<forall>s. KFold_split 2 s (nrows ex_X) = Inr P) \<and>
          [Inr [2, 2, 2, 2], Inr [2, 2, 2, 2]] = map (\<lambda>r. oof_folds ([ex_dt, ex_rf] ! r) ex_X ex_y P) [0, 1])
   \<and> KFold_split 2 (Some 123) 4 = KFold_split 2 None 4"
proof -
  let ?B = "base_loop [ex_dt, ex_rf] [0, 1] ex_X ex_y 2 (DataFrame_series ex_y)"
  let ?bp = "\<lparr>nrows = 4, cols = [(''medv'', [10, 20, 30, 40 :: real]), (''0'', [2, 2, 2, 2]), (''0'', [2, 2, 2, 2])]\<rparr>"
  have 1: "snd ?B = Inr ?bp" by code_simp
  then have b: "?B = (fst ?B, Inr ?bp)" by (metis prod.collapse)
  note t = one_partition_per_layer[of "[ex_dt, ex_rf]" "[0, 1]" ex_X ex_y 2 "DataFrame_series ex_y"
      "fst ?B" ?bp ex_X 0 0 "[ex_dt, ex_rf]" empty_frame "Some 123" 4 None]
  have h: "?B = (fst ?B, Inr ?bp) \<and> [0, 1 :: nat] \<noteq> []"
    by (rule conjI[OF b]) simp
  from mp[OF t[THEN conjunct1] h] obtain P where
    P: "\<forall>s. KFold_split 2 s (nrows ex_X) = Inr P" and
    v: "map (\<lambda>col. Inr (snd col)) (drop (length (cols (DataFrame_series ex_y))) (cols ?bp)) =
              map (\<lambda>r. oof_folds ([ex_dt, ex_rf] ! r) ex_X ex_y P) [0, 1]"
    by blast
  have "map (\<lambda>col. Inr (snd col)) (drop (length (cols (DataFrame_series ex_y))) (cols ?bp))
          = ([Inr [2, 2, 2, 2], Inr [2, 2, 2, 2]] :: (error + real list) list)"
    by (simp add: DataFrame_series_def)
  with v have 2: "[Inr [2, 2, 2, 2], Inr [2, 2, 2, 2]] = map (\<lambda>r. oof_folds ([ex_dt, ex_rf] ! r) ex_X ex_y P) [0, 1]"
    by simp
  from t[THEN conjunct2, THEN conjunct2]
  have 3: "KFold_split 2 (Some 123) 4 = KFold_split 2 None 4" .
  show ?thesis
  proof (intro conjI)
    show "snd ?B = Inr ?bp" by (rule 1)
    show "\<exists>P. (\<forall>s. KFold_split 2 s (nrows ex_X) = Inr P) \<and>
          [Inr [2, 2, 2, 2], Inr [2, 2, 2, 2]] = map (\<lambda>r. oof_folds ([ex_dt, ex_rf] ! r) ex_X ex_y P) [0, 1]"
      using P 2 by (intro exI[of _ P] conjI)
    show "KFold_split 2 (Some 123) 4 = KFold_split 2 None 4" by (rule 3)
  qed
qed

subsection \<open>Copies of a container and the label column\<close>

lemma copy_ref_ext: "copy_ref st memo r = (st1, memo1, r') \<Longrightarrow> \<exists>ext. st1 = st @ ext"
  by (auto simp: copy_ref_def split: option.splits)

lemma copy_refs_ext: "copy_refs st memo rs = (st1, memo1, rs') \<Longrightarrow> \<exists>ext. st1 = st @ ext"
proof (induction rs arbitrary: st memo st1 memo1 rs')
  case Nil
  then show ?case by simp
next
  case (Cons r rs)
  from Cons.prems obtain sta ma r1 rs1 where
    a: "copy_ref st memo r = (sta, ma, r1)" and
    b: "copy_refs sta ma rs = (st1, memo1, rs1)"
    by (auto split: prod.splits)
  from copy_ref_ext[OF a] Cons.IH[OF b] show ?case by auto
qed

lemma copy_items_ext: "copy_items st memo items = (st1, memo1, items') \<Longrightarrow> \<exists>ext. st1 = st @ ext"
proof (induction items arbitrary: st memo st1 memo1 items')
  case Nil
  then show ?case by simp
next
  case (Cons i items)
  show ?case
  proof (cases i)
    case (Est r)
    with Cons.prems obtain sta ma r1 rs1 where
      a: "copy_ref st memo r = (sta, ma, r1)" and
      b: "copy_items sta ma items = (st1, memo1, rs1)"
      by (auto split: prod.splits)
    from copy_ref_ext[OF a] Cons.IH[OF b] show ?thesis by auto
  next
    case (Level l)
    with Cons.prems obtain sta ma l1 rs1 where
      a: "copy_refs st memo l = (sta, ma, l1)" and
      b: "copy_items sta ma items = (st1, memo1, rs1)"
      by (auto split: prod.splits)
    from copy_refs_ext[OF a] Cons.IH[OF b] show ?thesis by auto
  next
    case (Flag b)
    with Cons.prems obtain rs1 where
      b: "copy_items st memo items = (st1, memo1, rs1)"
      by (auto split: prod.splits)
    from Cons.IH[OF b] show ?thesis .
  qed
qed

lemma deepcopy_first_type:
  assumes "deepcopy st (first # others) = (st1, c1)" and "\<forall>l. first \<noteq> Level l"
  shows "\<exists>f1 o1. c1 = f1 # o1 \<and> item_type_str st1 f1 = item_type_str st first"
proof (cases first)
  case (Est r)
  with assms(1) obtain memo1 rest' where
    b: "copy_items (st @ [st ! r]) [(r, length st)] others = (st1, memo1, rest')" and
    c: "c1 = Est (length st) # rest'"
    by (auto simp: deepcopy_def copy_ref_def split: prod.splits)
  from copy_items_ext[OF b] obtain ext where "st1 = (st @ [st ! r]) @ ext" by blast
  then have "st1 ! length st = st ! r" by (simp add: nth_append)
  with c Est show ?thesis by simp
next
  case (Level l)
  with assms(2) show ?thesis by simp
next
  case (Flag b)
  with assms(1) show ?thesis
    by (auto simp: deepcopy_def split: prod.splits)
qed

lemma inference_model_PList:
  "inference_model e st (PList c) = (st2, model) \<Longrightarrow> \<exists>m. model = PList m"
  by (auto simp: inference_model_def finalize_model_def split: prod.splits sum.splits)

lemma predict_value_not_level:
  "\<forall>l. first \<noteq> Level l \<Longrightarrow>
     predict_value st (PList (first # others)) (PList m) X = predict_single_layer st m X"
  by (cases first) (simp_all add: predict_value_def)

lemma label_frame_cols:
  "cols (concat_cols d (label_frame e n pred)) = cols d @ [(''Label'', map (np_round e n) pred)]"
  by (simp add: concat_cols_def label_frame_def DataFrame_named_def)

lemma predict_model_data_single:
  assumes np: "\<not> contains ''sklearn.pipeline.Pipeline'' (item_type_str st first)"
    and nl: "\<forall>l. first \<noteq> Level l"
    and ok: "predict_model e st (PList (first # others)) (Some d) n = Inr out"
  shows "\<exists>g st1 c1 st2 model Xtest pred.
           session e = Some g \<and>
           deepcopy st (first # others) = (st1, c1) \<and>
           inference_model e st1 (PList (first # others)) = (st2, PList model) \<and>
           prep_transform g d = Inr Xtest \<and>
           predict_single_layer st2 model Xtest = Inr pred \<and>
           out = concat_cols d (label_frame e n pred) \<and>
           cols out = cols d @ [(''Label'', map (np_round e n) pred)]"
proof -
  obtain st1 c1 where dc: "deepcopy st (first # others) = (st1, c1)"
    by (cases "deepcopy st (first # others)")
  from deepcopy_first_type[OF dc nl] obtain f1 o1 where
    c1: "c1 = f1 # o1" and ty: "item_type_str st1 f1 = item_type_str st first" by blast
  show ?thesis
  proof (cases "session e")
    case None
    with dc c1 ty np have "choose_transformer e st (PList (first # others)) = (st1, Inl NameError)"
      by (simp add: choose_transformer_def)
    with ok show ?thesis by (simp add: predict_model_def)
  next
    case (Some g)
    with dc c1 ty np
    have ct: "choose_transformer e st (PList (first # others)) =
                (st1, Inr (prep_transform g, PList (first # others)))"
      by (simp add: choose_transformer_def)
    obtain st2 model where im: "inference_model e st1 (PList (first # others)) = (st2, model)"
      by (cases "inference_model e st1 (PList (first # others))")
    from inference_model_PList[OF im] obtain m where m: "model = PList m" by blast
    from ok ct im m obtain Xtest pred where
      x: "prep_transform g d = Inr Xtest" and
      p: "predict_value st2 (PList (first # others)) (PList m) Xtest = Inr pred" and
      o: "out = concat_cols d (label_frame e n pred)"
      by (auto simp: predict_model_def split: sum.splits)
    from p nl have "predict_single_layer st2 m Xtest = Inr pred"
      by (simp add: predict_value_not_level)
    with Some dc im m x o show ?thesis by (simp add: label_frame_cols)
  qed
qed


text \<open>
  C10, as amended. The claim: on a single-layer container with an external data table,
  \<^verbatim>\<open>predict_model\<close> returns the input with one more column, \<^verbatim>\<open>Label\<close>, the rounded final
  prediction of the meta estimator. That holds when the first item of the container is
  not a \<^verbatim>\<open>Pipeline\<close>: a returned table is the input's columns, unchanged, followed by
  the one column \<^verbatim>\<open>Label\<close>, the rounded predictions of the single-layer branch on the
  transformed data. The branch runs on what \<^verbatim>\<open>finalize_model\<close> returns for the
  container, a copy fitted again on the session's data, when that call succeeds, and on
  the container itself otherwise.
\<close>

theorem predict_model_appends_label:
  assumes "\<not> contains ''sklearn.pipeline.Pipeline'' (item_type_str st first)"
    and "\<forall>l. first \<noteq> Level l"
    and "predict_model e st (PList (first # others)) (Some d) n = Inr out"
  shows "\<exists>g st1 c1 st2 model Xtest pred.
           session e = Some g \<and>
           deepcopy st (first # others) = (st1, c1) \<and>
           inference_model e st1 (PList (first # others)) = (st2, PList model) \<and>
           prep_transform g d = Inr Xtest \<and>
           predict_single_layer st2 model Xtest = Inr pred \<and>
           out = concat_cols d (label_frame e n pred) \<and>
           cols out = cols d @ [(''Label'', map (np_round e n) pred)]"
  using assms by (rule predict_model_data_single)

theorem predict_model_appends_label_witness:
  "predict_model ex_env ex_single_store (PList [Est 0, Est 1, Flag True]) (Some ex_X) 4
     = Inr \<lparr>nrows = 4, cols = [(''f1'', [1, 2, 3, 4]), (''f2'', [5, 6, 7, 8]), (''Label'', [1, 1, 1, 1])]\<rparr>
   \<and> (\<exists>pred. [(''f1'', [1, 2, 3, 4]), (''f2'', [5, 6, 7, 8]), (''Label'', [1, 1, 1, 1])]
               = cols ex_X @ [(''Label'', map (np_round ex_env 4) pred)])"
proof -
  let ?out = "\<lparr>nrows = 4, cols = [(''f1'', [1, 2, 3, 4 :: real]), (''f2'', [5, 6, 7, 8]), (''Label'', [1, 1, 1, 1])]\<rparr>"
  have a: "\<not> contains ''sklearn.pipeline.Pipeline'' (item_type_str ex_single_store (Est 0))"
    by code_simp
  have b: "\<forall>l. Est 0 \<noteq> Level l" by simp
  have c: "predict_model ex_env ex_single_store (PList (Est 0 # [Est 1, Flag True])) (Some ex_X) 4 = Inr ?out"
    by code_simp
  from predict_model_appends_label[OF a b c] obtain pred where
    "cols ?out = cols ex_X @ [(''Label'', map (np_round ex_env 4) pred)]" by blast
  then have "\<exists>pred. [(''f1'', [1, 2, 3, 4]), (''f2'', [5, 6, 7, 8]), (''Label'', [1, 1, 1, 1])]
               = cols ex_X @ [(''Label'', map (np_round ex_env 4) pred)]" by auto
  with c show ?thesis by simp
qed

text \<open>
  C10, the claim as stated fails. A single-layer container whose first base estimator
  is a \<^verbatim>\<open>Pipeline\<close> of the library is read by \<^verbatim>\<open>predict_model\<close> as a transformer followed
  by a model: the returned \<^verbatim>\<open>Label\<close> is the prediction of the second item (7 per row),
  not the final prediction of the meta estimator (9 per row).
\<close>

theorem predict_model_pipeline_first:
  "snd (stack_models ex_env [ex_pipe, ex_seven, ex_nine] [0, 1] (Some 2) (PInt 2) (PInt 4) (PBool False) False (PBool True))
     = Inr [Est 0, Est 1, Est 2, Flag False]
   \<and> predict_model ex_env ex_pipe_store (PList [Est 0, Est 1, Est 2, Flag False]) (Some ex_X) 4
     = Inr \<lparr>nrows = 4, cols = [(''f1'', [1, 2, 3, 4]), (''f2'', [5, 6, 7, 8]), (''Label'', [7, 7, 7, 7])]\<rparr>
   \<and> predict_single_layer ex_pipe_store [Est 0, Est 1, Est 2, Flag False] ex_X = Inr [9, 9, 9, 9]
   \<and> predict_obj (ex_pipe_store ! 1) ex_X = Inr [7, 7, 7, 7]"
  by code_simp

end
